theory Spec2Isabelle
  imports Complex_Main
begin

section \<open>Flight booking: shared data types\<close>

text \<open>
  Go strings are byte sequences and are modelled as \<open>string\<close> (lists of 8-bit characters).
  \<open>time.Time\<close> and \<open>time.Duration\<close> are modelled as integers counting nanoseconds.
\<close>

type_synonym Time = int
type_synonym Duration = int

definition Second :: Duration where
  "Second = 1000000000"

definition Minute :: Duration where
  "Minute = 60 * Second"

text \<open>
  \<open>domain.OrderStatus\<close> and \<open>domain.SeatStatus\<close> are Go string types used as
  enumerations; the CHECK constraints of the tables admit exactly these values.
\<close>

datatype OrderStatus =
    OrderStatusCreated
  | OrderStatusSeatsReserved
  | OrderStatusPaymentPending
  | OrderStatusPaymentProcessing
  | OrderStatusConfirmed
  | OrderStatusFailed
  | OrderStatusExpired

datatype SeatStatus =
    SeatStatusAvailable
  | SeatStatusReserved
  | SeatStatusBooked

text \<open>
  Errors as values. \<open>ApplicationError\<close> is Temporal's typed application error (message and
  error type); \<open>PlainError\<close> is an ordinary Go error carrying its text. \<open>Error\<close> is the
  text of an error; the functions modelled here call it on plain errors only.
\<close>

datatype error =
    ApplicationError string string
  | PlainError string

fun Error :: "error \<Rightarrow> string" where
  "Error (ApplicationError m t) = m"
| "Error (PlainError s) = s"

text \<open>\<open>fmt.Errorf(prefix + "%w", err)\<close>\<close>

definition wrap :: "string \<Rightarrow> error \<Rightarrow> error" where
  "wrap prefix e = PlainError (prefix @ Error e)"

text \<open>Decimal formatting of a non-negative integer (\<open>%d\<close>).\<close>

function dec :: "nat \<Rightarrow> string" where
  "dec n = (if n < 10 then [''0123456789'' ! n]
            else dec (n div 10) @ [''0123456789'' ! (n mod 10)])"
  by pat_completeness auto
termination
  by (relation "measure id") auto

declare dec.simps [simp del]

text \<open>internal/domain/errors.go\<close>

definition ErrOrderNotFound :: error where
  "ErrOrderNotFound = PlainError ''order not found''"

definition ErrInsufficientSeats :: error where
  "ErrInsufficientSeats = PlainError ''insufficient seats available''"

text \<open>internal/temporal/errors.go\<close>

definition ErrTypeSeatUnavailable :: string where
  "ErrTypeSeatUnavailable = ''SEAT_UNAVAILABLE''"

definition ErrTypePaymentDeclined :: string where
  "ErrTypePaymentDeclined = ''PAYMENT_DECLINED''"

definition ErrTypeInvalidPaymentCode :: string where
  "ErrTypeInvalidPaymentCode = ''INVALID_PAYMENT_CODE''"

definition ErrTypeOrderExpired :: string where
  "ErrTypeOrderExpired = ''ORDER_EXPIRED''"

definition NewInvalidPaymentCodeError :: error where
  "NewInvalidPaymentCodeError =
     ApplicationError ''payment code must be 5 digits'' ErrTypeInvalidPaymentCode"

section \<open>Payment simulator (activities/payment\_validation.go)\<close>

record ValidatePaymentInput =
  vp_OrderID :: string
  vp_PaymentCode :: string

record ValidatePaymentOutput =
  Success :: bool
  Message :: string

text \<open>
  The regular expression \<open>^\d{5}$\<close> of \<open>paymentCodePattern\<close>: in Go's RE2 syntax \<open>\d\<close> is an
  ASCII digit and, without the multi-line flag, \<open>^\<close> and \<open>$\<close> match only at the two ends of
  the text. \<open>match_digits n\<close> matches \<open>n\<close> digits followed by the end of the text.
\<close>

definition is_digit :: "char \<Rightarrow> bool" where
  "is_digit c = (c \<in> set ''0123456789'')"

fun match_digits :: "nat \<Rightarrow> string \<Rightarrow> bool" where
  "match_digits 0 s = (s = [])"
| "match_digits (Suc n) [] = False"
| "match_digits (Suc n) (c # cs) = (is_digit c \<and> match_digits n cs)"

definition paymentCodePattern_MatchString :: "string \<Rightarrow> bool" where
  "paymentCodePattern_MatchString s = match_digits 5 s"

text \<open>
  The sources of non-determinism of one call: the value of \<open>rand.Intn(7)\<close>, the time after
  which the activity context is done (if ever) with the value of \<open>ctx.Err()\<close> then, and the
  value of \<open>rand.Float64()\<close>. A context that is done strictly before the processing time
  wins the \<open>select\<close>.
\<close>

record payment_sim =
  randIntn7 :: nat
  ctxDoneAfter :: "Duration option"
  ctxErr :: error
  randFloat64 :: real

record BookingConfig =
  SeatReservationTimeout :: Duration
  PaymentFailureRate :: real

text \<open>The result pairs the time the call has waited with the value returned.\<close>

definition ValidatePayment ::
  "payment_sim \<Rightarrow> BookingConfig \<Rightarrow> ValidatePaymentInput \<Rightarrow>
     Duration \<times> (error + ValidatePaymentOutput)" where
  "ValidatePayment sim cfg input =
     (if \<not> paymentCodePattern_MatchString (vp_PaymentCode input)
      then (0, Inl NewInvalidPaymentCodeError)
      else if vp_PaymentCode input = ''00000''
      then (0, Inl (ApplicationError ''payment declined: insufficient funds''
                      ErrTypePaymentDeclined))
      else if vp_PaymentCode input = ''99999''
      then (0, Inr \<lparr>Success = True, Message = ''Payment validated (test mode)''\<rparr>)
      else
        let processingTime = (int (randIntn7 sim) + 1) * Second in
        (case ctxDoneAfter sim of
           Some d \<Rightarrow>
             if d < processingTime then (d, Inl (ctxErr sim))
             else if randFloat64 sim < PaymentFailureRate cfg
             then (processingTime,
                   Inl (PlainError ''payment validation failed: temporary gateway error''))
             else (processingTime,
                   Inr \<lparr>Success = True, Message = ''Payment validated successfully''\<rparr>)
         | None \<Rightarrow>
             if randFloat64 sim < PaymentFailureRate cfg
             then (processingTime,
                   Inl (PlainError ''payment validation failed: temporary gateway error''))
             else (processingTime,
                   Inr \<lparr>Success = True, Message = ''Payment validated successfully''\<rparr>)))"

section \<open>Lock store (repository/seat\_lock\_repo.go)\<close>

text \<open>
  The Redis keyspace of seat locks: a key holds the owning order id and the expiry it was
  written with, in nanoseconds; an expiry of 0 stands for a key written without expiry.
  An entry whose expiry has run out is absent from the store.
\<close>

type_synonym lock_store = "string \<rightharpoonup> (string \<times> Duration)"

definition seatLockKey :: "string \<Rightarrow> string \<Rightarrow> string" where
  "seatLockKey flightID seatID = ''seat:lock:'' @ flightID @ '':'' @ seatID"

text \<open>
  The loop over the results of the pipelined \<open>GET\<close>s: the first seat whose key holds a value
  other than \<open>orderID\<close> gives the error; an absent key (\<open>redis.Nil\<close>) is skipped.
\<close>

fun check_results :: "lock_store \<Rightarrow> string \<Rightarrow> string list \<Rightarrow> string \<Rightarrow> error option" where
  "check_results store flightID [] orderID = None"
| "check_results store flightID (seatID # rest) orderID =
     (case store (seatLockKey flightID seatID) of
        None \<Rightarrow> check_results store flightID rest orderID
      | Some (existingOrderID, t) \<Rightarrow>
          if existingOrderID \<noteq> orderID
          then Some (PlainError (''seat '' @ seatID @ '' already locked by order ''
                                  @ existingOrderID))
          else check_results store flightID rest orderID)"

text \<open>
  The expiry that \<open>Set\<close> of the Redis client (go-redis v9.4.0 in go.mod) asks of the server
  for its \<open>expiration\<close> argument. A positive one is sent in whole milliseconds (\<open>PX\<close>) when
  it is below a second or not a whole number of seconds, and in whole seconds (\<open>EX\<close>)
  otherwise, in both cases rounded down but never below one unit; \<open>KeepTTL\<close> keeps the
  expiry the key has; any other value writes the key without expiry.
\<close>

definition Millisecond :: Duration where
  "Millisecond = 1000000"

definition KeepTTL :: Duration where
  "KeepTTL = - 1"

definition usePrecise :: "Duration \<Rightarrow> bool" where
  "usePrecise dur = (dur < Second \<or> dur mod Second \<noteq> 0)"

definition formatMs :: "Duration \<Rightarrow> int" where
  "formatMs dur = (if 0 < dur \<and> dur < Millisecond then 1 else dur div Millisecond)"

definition formatSec :: "Duration \<Rightarrow> int" where
  "formatSec dur = (if 0 < dur \<and> dur < Second then 1 else dur div Second)"

definition set_expiry :: "Duration \<Rightarrow> Duration \<Rightarrow> Duration" where
  "set_expiry expiration old =
     (if expiration > 0
      then (if usePrecise expiration then formatMs expiration * Millisecond
            else formatSec expiration * Second)
      else if expiration = KeepTTL then old
      else 0)"

definition expiry_of :: "lock_store \<Rightarrow> string \<Rightarrow> Duration" where
  "expiry_of store key = (case store key of None \<Rightarrow> 0 | Some (v, t) \<Rightarrow> t)"

text \<open>The pipelined \<open>SET\<close>s of \<open>LockSeats\<close>, one per seat, in order.\<close>

fun set_locks :: "lock_store \<Rightarrow> string \<Rightarrow> string list \<Rightarrow> string \<Rightarrow> Duration \<Rightarrow> lock_store" where
  "set_locks store flightID [] orderID ttl = store"
| "set_locks store flightID (seatID # rest) orderID ttl =
     set_locks
       (store(seatLockKey flightID seatID \<mapsto>
                (orderID, set_expiry ttl (expiry_of store (seatLockKey flightID seatID)))))
       flightID rest orderID ttl"

text \<open>
  \<open>LockSeats\<close>. \<open>checkErr\<close> and \<open>setErr\<close> are the transport errors (other than \<open>redis.Nil\<close>) of
  the two pipeline executions, \<open>None\<close> when the execution completes; a failed execution is
  taken to leave the store as it was. The result is the returned error and the store.
\<close>

definition LockSeats ::
  "string option \<Rightarrow> string option \<Rightarrow> lock_store \<Rightarrow> string \<Rightarrow> string list \<Rightarrow> string \<Rightarrow> Duration
     \<Rightarrow> error option \<times> lock_store" where
  "LockSeats checkErr setErr store flightID seatIDs orderID ttl =
     (case checkErr of
        Some e \<Rightarrow> (Some (wrap ''check existing locks: '' (PlainError e)), store)
      | None \<Rightarrow>
          (case check_results store flightID seatIDs orderID of
             Some err \<Rightarrow> (Some err, store)
           | None \<Rightarrow>
               (case setErr of
                  Some e \<Rightarrow> (Some (wrap ''set seat locks: '' (PlainError e)), store)
                | None \<Rightarrow> (None, set_locks store flightID seatIDs orderID ttl))))"

text \<open>The Lua script of \<open>ReleaseLocks\<close>: delete the key if its value is the argument.\<close>

definition compare_and_delete :: "lock_store \<Rightarrow> string \<Rightarrow> string \<Rightarrow> lock_store" where
  "compare_and_delete store key arg =
     (case store key of
        None \<Rightarrow> store
      | Some (v, t) \<Rightarrow> if v = arg then store(key := None) else store)"

text \<open>
  \<open>ReleaseLocks\<close> runs the script once per seat and stops at the first transport error.
  \<open>scriptErr i\<close> is the transport error of the \<open>i\<close>-th run of this call, if any.
\<close>

fun ReleaseLocks_from ::
  "(nat \<Rightarrow> string option) \<Rightarrow> nat \<Rightarrow> lock_store \<Rightarrow> string \<Rightarrow> string list \<Rightarrow> string
     \<Rightarrow> error option \<times> lock_store" where
  "ReleaseLocks_from scriptErr i store flightID [] orderID = (None, store)"
| "ReleaseLocks_from scriptErr i store flightID (seatID # rest) orderID =
     (case scriptErr i of
        Some e \<Rightarrow> (Some (wrap (''release seat lock '' @ seatID @ '': '') (PlainError e)), store)
      | None \<Rightarrow>
          ReleaseLocks_from scriptErr (Suc i)
            (compare_and_delete store (seatLockKey flightID seatID) orderID)
            flightID rest orderID)"

definition ReleaseLocks ::
  "(nat \<Rightarrow> string option) \<Rightarrow> lock_store \<Rightarrow> string \<Rightarrow> string list \<Rightarrow> string
     \<Rightarrow> error option \<times> lock_store" where
  "ReleaseLocks scriptErr store flightID seatIDs orderID =
     ReleaseLocks_from scriptErr 0 store flightID seatIDs orderID"

definition no_faults :: "nat \<Rightarrow> string option" where
  "no_faults i = None"

section \<open>Relational store (repository/order\_repo.go, repository/flight\_repo.go)\<close>

record Order =
  ID :: string
  FlightID :: string
  WorkflowID :: string
  Status :: OrderStatus
  Seats :: "string list"
  TotalPriceCents :: int
  PaymentCode :: "string option"
  ExpiresAt :: "Time option"
  ConfirmedAt :: "Time option"
  FailureReason :: "string option"
  CreatedAt :: Time
  UpdatedAt :: Time

record Seat =
  seat_ID :: string
  seat_FlightID :: string
  seat_Row :: int
  seat_Column :: string
  seat_Status :: SeatStatus
  seat_OrderID :: "string option"
  seat_CreatedAt :: Time
  seat_UpdatedAt :: Time

record Flight =
  flight_ID :: string
  flight_FlightNumber :: string
  flight_Origin :: string
  flight_Destination :: string
  flight_DepartureTime :: Time
  flight_ArrivalTime :: Time
  flight_TotalSeats :: int
  flight_AvailableSeats :: int
  flight_PriceCents :: int
  flight_CreatedAt :: Time
  flight_UpdatedAt :: Time

text \<open>
  The tables: orders and flights are keyed by their primary key \<open>id\<close>; the seats table is
  the list of its rows. Every statement is executed on its own (\<open>pool.Exec\<close>), so it
  takes effect as soon as it succeeds. \<open>execErr\<close> is the driver error of a statement, if
  any, and \<open>now\<close> the value of \<open>NOW()\<close>.
\<close>

type_synonym orders_table = "string \<rightharpoonup> Order"
type_synonym flights_table = "string \<rightharpoonup> Flight"
type_synonym seats_table = "Seat list"

text \<open>\<open>OrderRepo.FindByID\<close>\<close>

definition FindByID :: "string option \<Rightarrow> orders_table \<Rightarrow> string \<Rightarrow> error + Order" where
  "FindByID execErr orders oid =
     (case execErr of
        Some e \<Rightarrow> Inl (wrap ''query order: '' (PlainError e))
      | None \<Rightarrow> (case orders oid of None \<Rightarrow> Inl ErrOrderNotFound | Some ord \<Rightarrow> Inr ord))"

text \<open>
  \<open>OrderRepo.UpdateStatus\<close>: \<open>UPDATE orders SET status = $1, updated_at = NOW() WHERE id = $2\<close>;
  no row affected gives \<open>ErrOrderNotFound\<close>.
\<close>

definition UpdateStatus ::
  "string option \<Rightarrow> Time \<Rightarrow> orders_table \<Rightarrow> string \<Rightarrow> OrderStatus \<Rightarrow> error option \<times> orders_table" where
  "UpdateStatus execErr now orders oid status =
     (case execErr of
        Some e \<Rightarrow> (Some (wrap ''update order status: '' (PlainError e)), orders)
      | None \<Rightarrow>
          (case orders oid of
             None \<Rightarrow> (Some ErrOrderNotFound, orders)
           | Some ord \<Rightarrow> (None, orders(oid \<mapsto> ord\<lparr>Status := status, UpdatedAt := now\<rparr>))))"

text \<open>\<open>OrderRepo.Confirm\<close>, \<open>OrderRepo.Fail\<close>, \<open>OrderRepo.Expire\<close>: the same shape of statement.\<close>

definition Confirm ::
  "string option \<Rightarrow> Time \<Rightarrow> orders_table \<Rightarrow> string \<Rightarrow> error option \<times> orders_table" where
  "Confirm execErr now orders oid =
     (case execErr of
        Some e \<Rightarrow> (Some (wrap ''confirm order: '' (PlainError e)), orders)
      | None \<Rightarrow>
          (case orders oid of
             None \<Rightarrow> (Some ErrOrderNotFound, orders)
           | Some ord \<Rightarrow>
               (None, orders(oid \<mapsto> ord\<lparr>Status := OrderStatusConfirmed,
                                          ConfirmedAt := Some now, UpdatedAt := now\<rparr>))))"

definition Fail ::
  "string option \<Rightarrow> Time \<Rightarrow> orders_table \<Rightarrow> string \<Rightarrow> string \<Rightarrow> error option \<times> orders_table" where
  "Fail execErr now orders oid reason =
     (case execErr of
        Some e \<Rightarrow> (Some (wrap ''fail order: '' (PlainError e)), orders)
      | None \<Rightarrow>
          (case orders oid of
             None \<Rightarrow> (Some ErrOrderNotFound, orders)
           | Some ord \<Rightarrow>
               (None, orders(oid \<mapsto> ord\<lparr>Status := OrderStatusFailed,
                                          FailureReason := Some reason, UpdatedAt := now\<rparr>))))"

definition Expire ::
  "string option \<Rightarrow> Time \<Rightarrow> orders_table \<Rightarrow> string \<Rightarrow> error option \<times> orders_table" where
  "Expire execErr now orders oid =
     (case execErr of
        Some e \<Rightarrow> (Some (wrap ''expire order: '' (PlainError e)), orders)
      | None \<Rightarrow>
          (case orders oid of
             None \<Rightarrow> (Some ErrOrderNotFound, orders)
           | Some ord \<Rightarrow>
               (None, orders(oid \<mapsto> ord\<lparr>Status := OrderStatusExpired, UpdatedAt := now\<rparr>))))"

text \<open>
  \<open>FlightRepo.UpdateAvailableSeats\<close>:
  \<open>UPDATE flights SET available_seats = available_seats + $1 ... WHERE id = $2 AND
  available_seats + $1 >= 0\<close>; no row affected gives \<open>ErrInsufficientSeats\<close>.
\<close>

definition UpdateAvailableSeats ::
  "string option \<Rightarrow> Time \<Rightarrow> flights_table \<Rightarrow> string \<Rightarrow> int \<Rightarrow> error option \<times> flights_table" where
  "UpdateAvailableSeats execErr now flights flightID delta =
     (case execErr of
        Some e \<Rightarrow> (Some (wrap ''update available seats: '' (PlainError e)), flights)
      | None \<Rightarrow>
          (case flights flightID of
             None \<Rightarrow> (Some ErrInsufficientSeats, flights)
           | Some f \<Rightarrow>
               if flight_AvailableSeats f + delta \<ge> 0
               then (None, flights(flightID \<mapsto>
                       f\<lparr>flight_AvailableSeats := flight_AvailableSeats f + delta,
                         flight_UpdatedAt := now\<rparr>))
               else (Some ErrInsufficientSeats, flights)))"

text \<open>
  \<open>FlightRepo.BookSeats\<close>:
  \<open>UPDATE seats SET status = 'booked', order_id = $1, updated_at = NOW()
  WHERE flight_id = $2 AND id = ANY($3)\<close>.
  The error for a row count other than \<open>len(seatIDs)\<close> is raised after the statement has
  taken effect.
\<close>

definition book_matches :: "string \<Rightarrow> string list \<Rightarrow> Seat \<Rightarrow> bool" where
  "book_matches flightID seatIDs r = (seat_FlightID r = flightID \<and> seat_ID r \<in> set seatIDs)"

definition BookSeats ::
  "string option \<Rightarrow> Time \<Rightarrow> seats_table \<Rightarrow> string \<Rightarrow> string list \<Rightarrow> string
     \<Rightarrow> error option \<times> seats_table" where
  "BookSeats execErr now seats flightID seatIDs orderID =
     (case execErr of
        Some e \<Rightarrow> (Some (wrap ''book seats: '' (PlainError e)), seats)
      | None \<Rightarrow>
          let seats' = map (\<lambda>r. if book_matches flightID seatIDs r
                                 then r\<lparr>seat_Status := SeatStatusBooked,
                                        seat_OrderID := Some orderID,
                                        seat_UpdatedAt := now\<rparr>
                                 else r) seats;
              rowsAffected = length (filter (book_matches flightID seatIDs) seats)
          in if rowsAffected \<noteq> length seatIDs
             then (Some (PlainError (''expected to book '' @ dec (length seatIDs)
                                      @ '' seats, but booked '' @ dec rowsAffected)), seats')
             else (None, seats'))"

text \<open>
  Modelled from the spec: \<open>FlightRepo.MarkSeatsAvailable\<close> is called by the activities but
  its body is not among the sources. The spec gives it as the unconditional transition
  of the given seats of the flight to \<open>available\<close>, clearing \<open>order_id\<close>.
\<close>

definition MarkSeatsAvailable ::
  "string option \<Rightarrow> Time \<Rightarrow> seats_table \<Rightarrow> string \<Rightarrow> string list \<Rightarrow> error option \<times> seats_table" where
  "MarkSeatsAvailable execErr now seats flightID seatIDs =
     (case execErr of
        Some e \<Rightarrow> (Some (PlainError e), seats)
      | None \<Rightarrow>
          (None, map (\<lambda>r. if book_matches flightID seatIDs r
                           then r\<lparr>seat_Status := SeatStatusAvailable,
                                  seat_OrderID := None,
                                  seat_UpdatedAt := now\<rparr>
                           else r) seats))"

section \<open>Domain rules (domain/order.go)\<close>

definition IsTerminal :: "Order \<Rightarrow> bool" where
  "IsTerminal ord = (Status ord = OrderStatusConfirmed \<or> Status ord = OrderStatusFailed
                      \<or> Status ord = OrderStatusExpired)"

definition validTransitions :: "(OrderStatus \<times> OrderStatus list) list" where
  "validTransitions =
     [(OrderStatusCreated, [OrderStatusSeatsReserved, OrderStatusFailed]),
      (OrderStatusSeatsReserved,
         [OrderStatusPaymentPending, OrderStatusExpired, OrderStatusFailed]),
      (OrderStatusPaymentPending,
         [OrderStatusPaymentProcessing, OrderStatusExpired, OrderStatusFailed]),
      (OrderStatusPaymentProcessing, [OrderStatusConfirmed, OrderStatusFailed])]"

definition CanTransitionTo :: "Order \<Rightarrow> OrderStatus \<Rightarrow> bool" where
  "CanTransitionTo ord status =
     (case map_of validTransitions (Status ord) of
        None \<Rightarrow> False
      | Some allowed \<Rightarrow> status \<in> set allowed)"

section \<open>Activities (activities/seat\_reservation.go, activities/order\_management.go)\<close>

text \<open>The stores an activity works on.\<close>

record world =
  db_orders :: orders_table
  db_seats :: seats_table
  db_flights :: flights_table
  redis_locks :: lock_store

record ReleaseSeatsInput =
  rs_OrderID :: string
  rs_FlightID :: string
  rs_Seats :: "string list"

record release_faults =
  rf_script :: "nat \<Rightarrow> string option"
  rf_mark :: "string option"

text \<open>\<open>BookingActivities.ReleaseSeats\<close>: release the locks, then mark the seat rows available.\<close>

definition ReleaseSeats ::
  "release_faults \<Rightarrow> Time \<Rightarrow> world \<Rightarrow> ReleaseSeatsInput \<Rightarrow> error option \<times> world" where
  "ReleaseSeats faults now w input =
     (case ReleaseLocks (rf_script faults) (redis_locks w) (rs_FlightID input) (rs_Seats input)
             (rs_OrderID input) of
        (Some err, ls) \<Rightarrow>
          (Some (wrap (''release seats for order '' @ rs_OrderID input @ '': '') err),
           w\<lparr>redis_locks := ls\<rparr>)
      | (None, ls) \<Rightarrow>
          (case MarkSeatsAvailable (rf_mark faults) now (db_seats w) (rs_FlightID input)
                  (rs_Seats input) of
             (Some err, ss) \<Rightarrow>
               (Some (wrap (''mark seats available in DB for order '' @ rs_OrderID input
                            @ '': '') err),
                w\<lparr>redis_locks := ls, db_seats := ss\<rparr>)
           | (None, ss) \<Rightarrow> (None, w\<lparr>redis_locks := ls, db_seats := ss\<rparr>)))"

record ConfirmOrderInput =
  co_OrderID :: string
  co_FlightID :: string
  co_Seats :: "string list"

record confirm_faults =
  cf_confirm :: "string option"
  cf_book :: "string option"
  cf_counter :: "string option"
  cf_release :: "nat \<Rightarrow> string option"

text \<open>
  \<open>BookingActivities.ConfirmOrder\<close>: three statements, each executed on its own, then the
  release of the locks, whose error is discarded.
\<close>

definition ConfirmOrder ::
  "confirm_faults \<Rightarrow> Time \<Rightarrow> world \<Rightarrow> ConfirmOrderInput \<Rightarrow> error option \<times> world" where
  "ConfirmOrder faults now w input =
     (case Confirm (cf_confirm faults) now (db_orders w) (co_OrderID input) of
        (Some err, os) \<Rightarrow> (Some (wrap ''confirm order: '' err), w\<lparr>db_orders := os\<rparr>)
      | (None, os) \<Rightarrow>
          (case BookSeats (cf_book faults) now (db_seats w) (co_FlightID input) (co_Seats input)
                  (co_OrderID input) of
             (Some err, ss) \<Rightarrow>
               (Some (wrap ''book seats: '' err), w\<lparr>db_orders := os, db_seats := ss\<rparr>)
           | (None, ss) \<Rightarrow>
               let seatCount = length (co_Seats input) in
               (case UpdateAvailableSeats (cf_counter faults) now (db_flights w)
                       (co_FlightID input) (- int seatCount) of
                  (Some err, fs) \<Rightarrow>
                    (Some (wrap ''update available seats: '' err),
                     w\<lparr>db_orders := os, db_seats := ss, db_flights := fs\<rparr>)
                | (None, fs) \<Rightarrow>
                    (None,
                     w\<lparr>db_orders := os, db_seats := ss, db_flights := fs,
                       redis_locks := snd (ReleaseLocks (cf_release faults) (redis_locks w)
                                       (co_FlightID input) (co_Seats input)
                                       (co_OrderID input))\<rparr>))))"

section \<open>Status query of the facade (service/booking\_service.go)\<close>

record BookingStatusResponse =
  bs_OrderID :: string
  bs_FlightID :: string
  bs_Status :: OrderStatus
  bs_Seats :: "string list"
  bs_ExpiresAt :: Time
  bs_TimerRemaining :: int
  bs_PaymentAttempts :: int
  bs_LastError :: string

record OrderStatusResponse =
  os_OrderID :: string
  os_Status :: OrderStatus
  os_Seats :: "string list"
  os_TimerRemaining :: int
  os_PaymentAttempts :: int
  os_LastError :: string

text \<open>\<open>Time.Sub\<close> saturates at the bounds of \<open>Duration\<close>.\<close>

definition Sub :: "Time \<Rightarrow> Time \<Rightarrow> Duration" where
  "Sub t u = max (- (2 ^ 63)) (min (2 ^ 63 - 1) (t - u))"

text \<open>
  \<open>int(d.Seconds())\<close>. \<open>Seconds\<close> adds the whole seconds of \<open>d\<close> and its nanoseconds divided
  by \<open>1e9\<close> as 64-bit floats, and the conversion to \<open>int\<close> truncates. Below \<open>2^24\<close> seconds
  (about 194 days) the floats are fine enough for the sum to stay under the next whole
  second, and the result is the number of whole seconds truncated towards zero. From
  \<open>2^24\<close> seconds on the sum can round up to the next whole second (16777216.999999999 s
  gives 16777217); the rounding on that range is not worked out here and is the
  parameter \<open>floatSeconds\<close>.
\<close>

definition Seconds_int :: "(Duration \<Rightarrow> int) \<Rightarrow> Duration \<Rightarrow> int" where
  "Seconds_int floatSeconds d =
     (if 0 \<le> d \<and> d < 2 ^ 24 * Second then d div Second
      else if - (2 ^ 24 * Second) < d \<and> d < 0 then - ((- d) div Second)
      else floatSeconds d)"

definition stringValue :: "string option \<Rightarrow> string" where
  "stringValue s = (case s of None \<Rightarrow> [] | Some v \<Rightarrow> v)"

text \<open>
  \<open>BookingService.GetOrderStatus\<close>. \<open>query\<close> is the outcome of the workflow query,
  \<open>findErr\<close> the driver error of the fallback read (if any), \<open>wallNow\<close> the wall clock and
  \<open>floatSeconds\<close> the float conversion of long durations.
\<close>

definition GetOrderStatus ::
  "(Duration \<Rightarrow> int) \<Rightarrow> error + BookingStatusResponse \<Rightarrow> string option \<Rightarrow> Time
     \<Rightarrow> orders_table \<Rightarrow> string \<Rightarrow> error + OrderStatusResponse" where
  "GetOrderStatus floatSeconds query findErr wallNow orders orderID =
     (case query of
        Inl err \<Rightarrow>
          (case FindByID findErr orders orderID of
             Inl dbErr \<Rightarrow> Inl ErrOrderNotFound
           | Inr ord \<Rightarrow>
               let timerRemaining =
                     (case ExpiresAt ord of
                        None \<Rightarrow> 0
                      | Some e \<Rightarrow>
                          let remaining = Sub e wallNow in
                          if remaining > 0 then Seconds_int floatSeconds remaining else 0)
               in Inr \<lparr>os_OrderID = ID ord, os_Status = Status ord, os_Seats = Seats ord,
                        os_TimerRemaining = timerRemaining, os_PaymentAttempts = 0,
                        os_LastError = stringValue (FailureReason ord)\<rparr>)
      | Inr status \<Rightarrow>
          Inr \<lparr>os_OrderID = bs_OrderID status, os_Status = bs_Status status,
                os_Seats = bs_Seats status, os_TimerRemaining = bs_TimerRemaining status,
                os_PaymentAttempts = bs_PaymentAttempts status,
                os_LastError = bs_LastError status\<rparr>)"

section \<open>Booking workflow (workflows/booking\_workflow.go)\<close>

subsection \<open>Contexts, activity calls and the environment\<close>

record ActivityOptions =
  StartToCloseTimeout :: Duration
  InitialInterval :: Duration
  BackoffCoefficient :: real
  MaximumInterval :: Duration
  MaximumAttempts :: nat
  NonRetryableErrorTypes :: "string list"

text \<open>
  A workflow context: whether cancelling the workflow cancels what is scheduled on it, and
  the activity options attached to it.
\<close>

record Context =
  cancellable :: bool
  activityOptions :: "ActivityOptions option"

definition rootContext :: Context where
  "rootContext = \<lparr>cancellable = True, activityOptions = None\<rparr>"

definition WithActivityOptions :: "Context \<Rightarrow> ActivityOptions \<Rightarrow> Context" where
  "WithActivityOptions ctx opts = ctx\<lparr>activityOptions := Some opts\<rparr>"

definition NewDisconnectedContext :: "Context \<Rightarrow> Context" where
  "NewDisconnectedContext ctx = ctx\<lparr>cancellable := False\<rparr>"

definition seatActivityOptions :: ActivityOptions where
  "seatActivityOptions =
     \<lparr>StartToCloseTimeout = 30 * Second, InitialInterval = Second, BackoffCoefficient = 2,
      MaximumInterval = 10 * Second, MaximumAttempts = 3, NonRetryableErrorTypes = []\<rparr>"

definition orderActivityOptions :: ActivityOptions where
  "orderActivityOptions =
     \<lparr>StartToCloseTimeout = 30 * Second, InitialInterval = Second, BackoffCoefficient = 2,
      MaximumInterval = 10 * Second, MaximumAttempts = 3, NonRetryableErrorTypes = []\<rparr>"

definition paymentActivityOptions :: ActivityOptions where
  "paymentActivityOptions =
     \<lparr>StartToCloseTimeout = 10 * Second, InitialInterval = 0, BackoffCoefficient = 0,
      MaximumInterval = 0, MaximumAttempts = 1,
      NonRetryableErrorTypes = [ErrTypeInvalidPaymentCode, ErrTypePaymentDeclined]\<rparr>"

definition seatCtx :: Context where
  "seatCtx = WithActivityOptions rootContext seatActivityOptions"

definition orderCtx :: Context where
  "orderCtx = WithActivityOptions rootContext orderActivityOptions"

definition paymentCtx :: Context where
  "paymentCtx = WithActivityOptions rootContext paymentActivityOptions"

definition compensationCtx :: Context where
  "compensationCtx = WithActivityOptions (NewDisconnectedContext rootContext) seatActivityOptions"

text \<open>The activities the workflow schedules, with their inputs.\<close>

datatype activity =
    CreateOrder_activity string string string "string list" Time
  | ReserveSeats_activity string string "string list"
  | ReleaseSeats_activity ReleaseSeatsInput
  | UpdateSeatSelection_activity string string "string list" "string list"
  | UpdateOrderSeats_activity string "string list" Time
  | UpdateOrderStatus_activity string OrderStatus
  | ExpireOrder_activity string
  | FailOrder_activity string string
  | ValidatePayment_activity ValidatePaymentInput
  | ConfirmOrder_activity ConfirmOrderInput

text \<open>What the workflow asks of the engine, in order.\<close>

datatype command =
    ExecuteActivity Context activity
  | Sleep Duration
  | NewTimer Duration
  | CancelTimer

text \<open>
  A failed activity as the workflow sees it: the text of \<open>err.Error()\<close> and, when
  \<open>errors.As\<close> finds an application error in it, that error's type and message.
\<close>

datatype activity_error = ActivityError (err_Error: string) (err_As: "(string \<times> string) option")

datatype workflow_error =
    ActivityFailed activity_error
  | ErrReservationExpired
  | ErrWorkflowCanceled
  | QueryHandlerError string

text \<open>
  One round of the wait loop as the engine plays it: the value of \<open>workflow.Now\<close> at the top
  of the iteration and the event that \<open>Select\<close> delivers. A seat update carries the new
  seats, the outcome of \<open>UpdateSeatSelection\<close> and the value of \<open>workflow.Now\<close> afterwards.
  \<open>WorkflowCanceled\<close> is the cancellation of the workflow's context while the loop waits:
  the hold timer, created on a child of that context, then completes with an error.

  Cancellation reaches what is scheduled on a context with \<open>cancellable = True\<close>: a timer
  fails, and an activity returns an error, which is one of the outcomes the environment
  can give to any activity. It does not reach the disconnected context.
\<close>

datatype hold_event =
    SeatUpdate "string list" "activity_error option" Time
  | ProceedToPayment string
  | CancelBooking
  | TimerFired
  | WorkflowCanceled

record workflow_env =
  setQueryHandlerErr :: "string option"
  workflowID :: string
  startNow :: Time
  createOrderErr :: "activity_error option"
  reserveSeatsErr :: "activity_error option"
  events :: "(Time \<times> hold_event) list"
  validatePaymentErr :: "nat \<Rightarrow> activity_error option"
  confirmOrderErr :: "activity_error option"

record BookingWorkflowInput =
  in_OrderID :: string
  in_FlightID :: string
  in_Seats :: "string list"

record BookingWorkflowResult =
  res_OrderID :: string
  res_Status :: OrderStatus
  res_Seats :: "string list"
  res_Error :: string

record bookingState =
  orderID :: string
  flightID :: string
  seats :: "string list"
  status :: OrderStatus
  expiresAt :: Time
  paymentAttempts :: nat
  lastError :: string

definition toResult :: "bookingState \<Rightarrow> BookingWorkflowResult" where
  "toResult s = \<lparr>res_OrderID = orderID s, res_Status = status s, res_Seats = seats s,
                  res_Error = lastError s\<rparr>"

subsection \<open>The wait loop\<close>

text \<open>How the wait loop ends: still waiting (the events played so far are used up), the
  hold has expired, the payment signal or the cancel signal was received, the payment
  handler has panicked on the slice expression \<open>PaymentCode[:2]\<close>, or the loop spins for
  ever. The last is what the cancellation of the workflow's context leads to: the timer
  handler finds an error and sets nothing, no flag of the loop condition changes, and
  every further iteration creates a timer that fails at once, so the loop never returns.\<close>

datatype hold_result =
    HoldWaiting bookingState "command list"
  | HoldExpired bookingState "command list"
  | HoldPayment bookingState string "command list"
  | HoldCanceled bookingState "command list"
  | HoldPanic bookingState "command list"
  | HoldSpinning bookingState "command list"

text \<open>The handler of the \<open>update-seats\<close> signal.\<close>

definition onSeatUpdate ::
  "bookingState \<Rightarrow> string list \<Rightarrow> activity_error option \<Rightarrow> Time
     \<Rightarrow> bookingState \<times> command list" where
  "onSeatUpdate state newSeats updateErr nowAfter =
     (let call = ExecuteActivity seatCtx
                   (UpdateSeatSelection_activity (orderID state) (flightID state)
                      (seats state) newSeats) in
      case updateErr of
        Some e \<Rightarrow> (state\<lparr>lastError := err_Error e\<rparr>, [call, CancelTimer])
      | None \<Rightarrow>
          (let state' = state\<lparr>seats := newSeats, expiresAt := nowAfter + 15 * Minute\<rparr> in
           (state',
            [call,
             ExecuteActivity orderCtx
               (UpdateOrderSeats_activity (orderID state') newSeats (expiresAt state')),
             CancelTimer])))"

text \<open>The timer handler and the expiry exits of the loop.\<close>

definition expire :: "bookingState \<Rightarrow> bookingState" where
  "expire state = state\<lparr>status := OrderStatusExpired, lastError := ''seat reservation expired''\<rparr>"

fun hold_loop :: "bookingState \<Rightarrow> (Time \<times> hold_event) list \<Rightarrow> command list \<Rightarrow> hold_result" where
  "hold_loop state [] tr = HoldWaiting state tr"
| "hold_loop state ((now, ev) # rest) tr =
     (let timerDuration = Sub (expiresAt state) now in
      if timerDuration \<le> 0
      then HoldExpired (expire state)
             (tr @ [ExecuteActivity orderCtx (ExpireOrder_activity (orderID state))])
      else
        (case ev of
           SeatUpdate newSeats updateErr nowAfter \<Rightarrow>
             (case onSeatUpdate state newSeats updateErr nowAfter of
                (state', cmds) \<Rightarrow> hold_loop state' rest (tr @ [NewTimer timerDuration] @ cmds))
         | ProceedToPayment code \<Rightarrow>
             if length code < 2
             then HoldPanic state (tr @ [NewTimer timerDuration])
             else HoldPayment state code (tr @ [NewTimer timerDuration, CancelTimer])
         | CancelBooking \<Rightarrow>
             HoldCanceled state (tr @ [NewTimer timerDuration, CancelTimer])
         | TimerFired \<Rightarrow>
             HoldExpired (expire state)
               (tr @ [NewTimer timerDuration,
                      ExecuteActivity orderCtx (ExpireOrder_activity (orderID state))])
         | WorkflowCanceled \<Rightarrow>
             HoldSpinning state (tr @ [NewTimer timerDuration])))"

subsection \<open>The payment retry loop\<close>

definition maxPaymentAttempts :: nat where
  "maxPaymentAttempts = 3"

datatype 'a loop_control = Break 'a | Continue 'a

text \<open>
  One iteration of the retry loop on the workflow state, \<open>lastPaymentErr\<close> and the commands
  issued so far.
\<close>

definition payment_attempt ::
  "(nat \<Rightarrow> activity_error option) \<Rightarrow> string \<Rightarrow> nat
     \<Rightarrow> bookingState \<times> activity_error option \<times> command list
     \<Rightarrow> (bookingState \<times> activity_error option \<times> command list) loop_control" where
  "payment_attempt results code attempt x =
     (case x of (state, lastPaymentErr, tr) \<Rightarrow>
        let state1 = state\<lparr>paymentAttempts := attempt\<rparr>;
            tr1 = tr @ [ExecuteActivity paymentCtx
                          (ValidatePayment_activity
                             \<lparr>vp_OrderID = orderID state1, vp_PaymentCode = code\<rparr>)]
        in
        (case results attempt of
           None \<Rightarrow> Break (state1, lastPaymentErr, tr1)
         | Some err \<Rightarrow>
             (case err_As err of
                Some (errType, msg) \<Rightarrow>
                  if errType = ErrTypeInvalidPaymentCode \<or> errType = ErrTypePaymentDeclined
                  then Break (state1\<lparr>lastError := ''payment failed: '' @ msg\<rparr>, Some err, tr1)
                  else if attempt < maxPaymentAttempts
                  then Continue
                         (state1\<lparr>lastError := ''payment failed (attempt '' @ dec attempt
                                    @ '' of '' @ dec maxPaymentAttempts @ ''): '' @ err_Error err\<rparr>,
                          Some err, tr1 @ [Sleep (Second * int attempt)])
                  else Continue
                         (state1\<lparr>lastError := ''payment failed after '' @ dec maxPaymentAttempts
                                    @ '' attempts: '' @ err_Error err\<rparr>,
                          Some err, tr1)
              | None \<Rightarrow>
                  if attempt < maxPaymentAttempts
                  then Continue
                         (state1\<lparr>lastError := ''payment failed (attempt '' @ dec attempt
                                    @ '' of '' @ dec maxPaymentAttempts @ ''): '' @ err_Error err\<rparr>,
                          Some err, tr1 @ [Sleep (Second * int attempt)])
                  else Continue
                         (state1\<lparr>lastError := ''payment failed after '' @ dec maxPaymentAttempts
                                    @ '' attempts: '' @ err_Error err\<rparr>,
                          Some err, tr1))))"

function payment_loop ::
  "(nat \<Rightarrow> activity_error option) \<Rightarrow> string \<Rightarrow> nat
     \<Rightarrow> bookingState \<times> activity_error option \<times> command list
     \<Rightarrow> bookingState \<times> activity_error option \<times> command list" where
  "payment_loop results code attempt x =
     (if attempt \<le> maxPaymentAttempts
      then (case payment_attempt results code attempt x of
              Break y \<Rightarrow> y
            | Continue y \<Rightarrow> payment_loop results code (attempt + 1) y)
      else x)"
  by pat_completeness auto
termination
  by (relation "measure (\<lambda>(results, code, attempt, x). maxPaymentAttempts + 1 - attempt)") auto

declare payment_loop.simps [simp del]

subsection \<open>The workflow function\<close>

text \<open>
  How the body of the workflow function ends: waiting for the next event, panicking,
  spinning in the wait loop, or at a \<open>return\<close> statement with the state, the error returned
  and the commands issued.
\<close>

datatype body_result =
    BodyWaiting bookingState "command list"
  | BodyPanic bookingState "command list"
  | BodySpinning bookingState "command list"
  | BodyReturn bookingState "workflow_error option" "command list"

text \<open>Phase 4: confirm the booking.\<close>

definition confirm_phase :: "workflow_env \<Rightarrow> bookingState \<Rightarrow> command list \<Rightarrow> body_result" where
  "confirm_phase env state tr =
     (let state1 = state\<lparr>status := OrderStatusConfirmed\<rparr>;
          tr1 = tr @ [ExecuteActivity orderCtx
                        (ConfirmOrder_activity
                           \<lparr>co_OrderID = orderID state1, co_FlightID = flightID state1,
                            co_Seats = seats state1\<rparr>)]
      in
      case confirmOrderErr env of
        Some err \<Rightarrow>
          (let state2 = state1\<lparr>status := OrderStatusFailed,
                                lastError := ''confirmation failed: '' @ err_Error err\<rparr> in
           BodyReturn state2 (Some (ActivityFailed err))
             (tr1 @ [ExecuteActivity orderCtx
                       (FailOrder_activity (orderID state2) (lastError state2))]))
      | None \<Rightarrow> BodyReturn state1 None tr1)"

text \<open>Phase 3: process the payment with the manual retry loop, then check the final result.\<close>

definition payment_phase ::
  "workflow_env \<Rightarrow> bookingState \<Rightarrow> string \<Rightarrow> command list \<Rightarrow> body_result" where
  "payment_phase env state code tr =
     (let state1 = state\<lparr>status := OrderStatusPaymentProcessing\<rparr>;
          tr1 = tr @ [ExecuteActivity orderCtx
                        (UpdateOrderStatus_activity (orderID state1)
                           OrderStatusPaymentProcessing)]
      in
      case payment_loop (validatePaymentErr env) code 1 (state1, None, tr1) of
        (state2, lastPaymentErr, tr2) \<Rightarrow>
          (case lastPaymentErr of
             Some err \<Rightarrow>
               (let state3 = state2\<lparr>status := OrderStatusFailed\<rparr>;
                    state4 = (if lastError state3 = []
                              then state3\<lparr>lastError := ''payment failed after ''
                                            @ dec (paymentAttempts state3) @ '' attempts: ''
                                            @ err_Error err\<rparr>
                              else state3)
                in
                BodyReturn state4 (Some (ActivityFailed err))
                  (tr2 @ [ExecuteActivity orderCtx
                            (FailOrder_activity (orderID state4) (lastError state4))]))
           | None \<Rightarrow> confirm_phase env state2 tr2))"

text \<open>
  What follows the wait loop: the return on expiry from inside the loop, the handling of
  the cancellation, or phases 3 and 4.
\<close>

definition after_hold :: "workflow_env \<Rightarrow> hold_result \<Rightarrow> body_result" where
  "after_hold env r =
     (case r of
        HoldWaiting state tr \<Rightarrow> BodyWaiting state tr
      | HoldPanic state tr \<Rightarrow> BodyPanic state tr
      | HoldSpinning state tr \<Rightarrow> BodySpinning state tr
      | HoldExpired state tr \<Rightarrow> BodyReturn state (Some ErrReservationExpired) tr
      | HoldCanceled state tr \<Rightarrow>
          (let state3 = state\<lparr>status := OrderStatusFailed,
                               lastError := ''booking canceled by user''\<rparr> in
           BodyReturn state3 (Some ErrWorkflowCanceled)
             (tr @ [ExecuteActivity orderCtx
                      (FailOrder_activity (orderID state3) (lastError state3))]))
      | HoldPayment state code tr \<Rightarrow> payment_phase env state code tr)"

text \<open>
  The body after the compensation block has been installed: phases 1 and 2, then the
  rest. The hold duration is the constant 15 minutes of the source.
\<close>

definition workflow_body ::
  "workflow_env \<Rightarrow> BookingWorkflowInput \<Rightarrow> bookingState \<Rightarrow> body_result" where
  "workflow_body env input state0 =
     (let state1 = state0\<lparr>expiresAt := startNow env + 15 * Minute\<rparr>;
          tr1 = [ExecuteActivity orderCtx
                   (CreateOrder_activity (in_OrderID input) (in_FlightID input)
                      (workflowID env) (in_Seats input) (expiresAt state1))]
      in
      case createOrderErr env of
        Some err \<Rightarrow>
          BodyReturn (state1\<lparr>lastError := err_Error err, status := OrderStatusFailed\<rparr>)
            (Some (ActivityFailed err)) tr1
      | None \<Rightarrow>
          (let state2 = state1\<lparr>status := OrderStatusSeatsReserved\<rparr>;
               tr2 = tr1 @ [ExecuteActivity seatCtx
                              (ReserveSeats_activity (in_OrderID input) (in_FlightID input)
                                 (in_Seats input))]
           in
           case reserveSeatsErr env of
             Some err \<Rightarrow>
               BodyReturn (state2\<lparr>lastError := err_Error err, status := OrderStatusFailed\<rparr>)
                 (Some (ActivityFailed err)) tr2
           | None \<Rightarrow> after_hold env (hold_loop state2 (events env) tr2)))"

text \<open>
  The deferred compensation block: it sees the error being returned (\<open>nil\<close> while
  panicking) and the state at that moment. The error of the release is only logged.
\<close>

definition compensation ::
  "bookingState \<Rightarrow> workflow_error option \<Rightarrow> command list" where
  "compensation state err =
     (if err \<noteq> None \<or> status state = OrderStatusExpired \<or> status state = OrderStatusFailed
      then [ExecuteActivity compensationCtx
              (ReleaseSeats_activity
                 \<lparr>rs_OrderID = orderID state, rs_FlightID = flightID state,
                  rs_Seats = seats state\<rparr>)]
      else [])"

text \<open>
  The outcome of the workflow function on the history played by the environment.
  \<open>Returned\<close> carries the result (\<open>None\<close> for the zero result), the error, the final state
  and all commands issued. \<open>Waiting\<close>, \<open>Panicked\<close> and \<open>Spinning\<close> are not returns: the
  execution stays open (a panic fails the workflow task under the worker's default
  options, and a spinning loop never gets to the deferred block). The early return on a
  failed registration of the query handler comes before the compensation block is
  installed; the registration checks only the shape of the handler.
\<close>

datatype outcome =
    Waiting bookingState "command list"
  | Panicked bookingState "command list"
  | Spinning bookingState "command list"
  | Returned "BookingWorkflowResult option" "workflow_error option" bookingState "command list"

definition BookingWorkflow :: "workflow_env \<Rightarrow> BookingWorkflowInput \<Rightarrow> outcome" where
  "BookingWorkflow env input =
     (let state = \<lparr>orderID = in_OrderID input, flightID = in_FlightID input,
                    seats = in_Seats input, status = OrderStatusCreated, expiresAt = 0,
                    paymentAttempts = 0, lastError = []\<rparr>
      in
      case setQueryHandlerErr env of
        Some e \<Rightarrow> Returned None (Some (QueryHandlerError e)) state []
      | None \<Rightarrow>
          (case workflow_body env input state of
             BodyWaiting st tr \<Rightarrow> Waiting st tr
           | BodyPanic st tr \<Rightarrow> Panicked st (tr @ compensation st None)
           | BodySpinning st tr \<Rightarrow> Spinning st tr
           | BodyReturn st err tr \<Rightarrow>
               Returned (Some (toResult st)) err st (tr @ compensation st err)))"

text \<open>Projections of the intermediate results, and the clock readings of a history.\<close>

fun hold_state :: "hold_result \<Rightarrow> bookingState" where
  "hold_state (HoldWaiting st tr) = st"
| "hold_state (HoldExpired st tr) = st"
| "hold_state (HoldPayment st code tr) = st"
| "hold_state (HoldCanceled st tr) = st"
| "hold_state (HoldPanic st tr) = st"
| "hold_state (HoldSpinning st tr) = st"


fun body_state :: "body_result \<Rightarrow> bookingState" where
  "body_state (BodyWaiting st tr) = st"
| "body_state (BodyPanic st tr) = st"
| "body_state (BodySpinning st tr) = st"
| "body_state (BodyReturn st err tr) = st"


fun clock_readings :: "(Time \<times> hold_event) list \<Rightarrow> Time list" where
  "clock_readings [] = []"
| "clock_readings ((now, SeatUpdate newSeats updateErr nowAfter) # rest) =
     now # nowAfter # clock_readings rest"
| "clock_readings ((now, ev) # rest) = now # clock_readings rest"


fun state_of :: "outcome \<Rightarrow> bookingState" where
  "state_of (Waiting st tr) = st"
| "state_of (Panicked st tr) = st"
| "state_of (Spinning st tr) = st"
| "state_of (Returned res err st tr) = st"

section \<open>Example data\<close>

text \<open>Concrete rows and stores on which the statements below are evaluated.\<close>

definition example_order :: Order where
  "example_order =
     \<lparr>ID = ''o1'', FlightID = ''f1'', WorkflowID = ''booking-o1'',
      Status = OrderStatusConfirmed, Seats = [''1A''], TotalPriceCents = 10000,
      PaymentCode = None, ExpiresAt = Some (900 * Second), ConfirmedAt = Some (300 * Second),
      FailureReason = None, CreatedAt = 0, UpdatedAt = 300 * Second\<rparr>"

definition example_seat :: Seat where
  "example_seat =
     \<lparr>seat_ID = ''1A'', seat_FlightID = ''f1'', seat_Row = 1, seat_Column = ''A'',
      seat_Status = SeatStatusReserved, seat_OrderID = Some ''o2'',
      seat_CreatedAt = 0, seat_UpdatedAt = 0\<rparr>"

definition example_flight :: Flight where
  "example_flight =
     \<lparr>flight_ID = ''f1'', flight_FlightNumber = ''FL101'', flight_Origin = ''JFK'',
      flight_Destination = ''LAX'', flight_DepartureTime = 0, flight_ArrivalTime = 0,
      flight_TotalSeats = 1, flight_AvailableSeats = 0, flight_PriceCents = 10000,
      flight_CreatedAt = 0, flight_UpdatedAt = 0\<rparr>"

definition example_world :: world where
  "example_world =
     \<lparr>db_orders = [''o1'' \<mapsto> example_order\<lparr>Status := OrderStatusPaymentProcessing\<rparr>],
      db_seats = [example_seat\<lparr>seat_OrderID := Some ''o1''\<rparr>],
      db_flights = [''f1'' \<mapsto> example_flight],
      redis_locks = Map.empty\<rparr>"

definition no_confirm_faults :: confirm_faults where
  "no_confirm_faults =
     \<lparr>cf_confirm = None, cf_book = None, cf_counter = None, cf_release = no_faults\<rparr>"

definition example_input :: BookingWorkflowInput where
  "example_input = \<lparr>in_OrderID = ''o4'', in_FlightID = ''f1'', in_Seats = [''1A'', ''1B'']\<rparr>"

definition gateway_error :: activity_error where
  "gateway_error = ActivityError ''payment validation failed: temporary gateway error'' None"

text \<open>
  A history in which the payment signal arrives one second after the start, the first two
  payment validations fail with a retryable error and the third succeeds.
\<close>

definition retry_env :: workflow_env where
  "retry_env =
     \<lparr>setQueryHandlerErr = None, workflowID = ''booking-o4'', startNow = 0,
      createOrderErr = None, reserveSeatsErr = None,
      events = [(Second, ProceedToPayment ''12345'')],
      validatePaymentErr = (\<lambda>attempt. if attempt < 3 then Some gateway_error else None),
      confirmOrderErr = None\<rparr>"

text \<open>A history in which the cancel signal arrives one second after the start.\<close>

definition cancel_env :: workflow_env where
  "cancel_env =
     \<lparr>setQueryHandlerErr = None, workflowID = ''booking-o4'', startNow = 0,
      createOrderErr = None, reserveSeatsErr = None,
      events = [(Second, CancelBooking)],
      validatePaymentErr = (\<lambda>attempt. None),
      confirmOrderErr = None\<rparr>"

text \<open>A workflow state in the hold phase, fifteen minutes before its deadline.\<close>

definition example_state :: bookingState where
  "example_state =
     \<lparr>orderID = ''o4'', flightID = ''f1'', seats = [''1A'', ''1B''],
      status = OrderStatusSeatsReserved, expiresAt = 15 * Minute, paymentAttempts = 0,
      lastError = []\<rparr>"

section \<open>Properties of the payment simulator\<close>

lemma match_digits_iff:
  "match_digits n s \<longleftrightarrow> length s = n \<and> (\<forall>c \<in> set s. is_digit c)"
proof (induction n s rule: match_digits.induct)
  case (1 s)
  then show ?case by auto
next
  case (2 n)
  then show ?case by simp
next
  case (3 n c cs)
  then show ?case by auto
qed

text \<open>
  C5. A payment code that is not exactly five decimal digits is rejected at once with an
  application error of type \<open>INVALID_PAYMENT_CODE\<close>, which the payment retry policy never
  retries; the code \<open>00000\<close> is rejected at once with a never-retried \<open>PAYMENT_DECLINED\<close>
  error; the code \<open>99999\<close> succeeds without any waiting.
\<close>

theorem ValidatePayment_special_codes:
  "(\<not> (length code = 5 \<and> (\<forall>c \<in> set code. c \<in> set ''0123456789'')) \<longrightarrow>
      ValidatePayment sim cfg \<lparr>vp_OrderID = oid, vp_PaymentCode = code\<rparr> =
        (0, Inl (ApplicationError ''payment code must be 5 digits'' ''INVALID_PAYMENT_CODE''))
      \<and> ''INVALID_PAYMENT_CODE'' \<in> set (NonRetryableErrorTypes paymentActivityOptions))
   \<and> ValidatePayment sim cfg \<lparr>vp_OrderID = oid, vp_PaymentCode = ''00000''\<rparr> =
        (0, Inl (ApplicationError ''payment declined: insufficient funds'' ''PAYMENT_DECLINED''))
   \<and> ''PAYMENT_DECLINED'' \<in> set (NonRetryableErrorTypes paymentActivityOptions)
   \<and> ValidatePayment sim cfg \<lparr>vp_OrderID = oid, vp_PaymentCode = ''99999''\<rparr> =
        (0, Inr \<lparr>Success = True, Message = ''Payment validated (test mode)''\<rparr>)"
proof -
  have m0: "paymentCodePattern_MatchString ''00000''"
    by (simp add: paymentCodePattern_MatchString_def match_digits_iff is_digit_def)
  have m9: "paymentCodePattern_MatchString ''99999''"
    by (simp add: paymentCodePattern_MatchString_def match_digits_iff is_digit_def)
  have bad: "\<not> (length code = 5 \<and> (\<forall>c \<in> set code. c \<in> set ''0123456789'')) \<Longrightarrow>
      \<not> paymentCodePattern_MatchString code"
    unfolding paymentCodePattern_MatchString_def match_digits_iff is_digit_def by blast
  show ?thesis
    using m0 m9 bad
    by (simp add: ValidatePayment_def NewInvalidPaymentCodeError_def
        ErrTypeInvalidPaymentCode_def ErrTypePaymentDeclined_def paymentActivityOptions_def)
qed

theorem ValidatePayment_special_codes_witness:
  "ValidatePayment \<lparr>randIntn7 = 3, ctxDoneAfter = None, ctxErr = PlainError ''context canceled'', randFloat64 = 0\<rparr>
      \<lparr>SeatReservationTimeout = 15 * Minute, PaymentFailureRate = 1\<rparr>
      \<lparr>vp_OrderID = ''o1'', vp_PaymentCode = ''1234''\<rparr> =
     (0, Inl (ApplicationError ''payment code must be 5 digits'' ''INVALID_PAYMENT_CODE''))
   \<and> ValidatePayment \<lparr>randIntn7 = 3, ctxDoneAfter = None, ctxErr = PlainError ''context canceled'', randFloat64 = 0\<rparr>
      \<lparr>SeatReservationTimeout = 15 * Minute, PaymentFailureRate = 1\<rparr>
      \<lparr>vp_OrderID = ''o1'', vp_PaymentCode = ''99999''\<rparr> =
     (0, Inr \<lparr>Success = True, Message = ''Payment validated (test mode)''\<rparr>)"
  using ValidatePayment_special_codes
    [of "''1234''" "\<lparr>randIntn7 = 3, ctxDoneAfter = None, ctxErr = PlainError ''context canceled'', randFloat64 = 0\<rparr>"
        "\<lparr>SeatReservationTimeout = 15 * Minute, PaymentFailureRate = 1\<rparr>" "''o1''"]
  by simp

section \<open>Properties of the lock store\<close>

lemma check_results_None_iff:
  "check_results store f seatIDs ord = None \<longleftrightarrow>
     (\<forall>s \<in> set seatIDs. \<forall>v t. store (seatLockKey f s) = Some (v, t) \<longrightarrow> v = ord)"
  by (induction seatIDs) (auto split: option.splits)

lemma set_expiry_exact:
  assumes "0 < ttl" and "ttl mod Millisecond = 0"
  shows "set_expiry ttl old = ttl"
proof (cases "usePrecise ttl")
  case True
  have d: "Millisecond dvd ttl"
    using assms(2) by (simp add: mod_eq_0_iff_dvd)
  have "Millisecond \<le> ttl"
    using d assms(1) by (rule zdvd_imp_le)
  then have "formatMs ttl = ttl div Millisecond"
    by (simp add: formatMs_def)
  then show ?thesis
    using True assms(1) d by (simp add: set_expiry_def)
next
  case False
  then have ge: "Second \<le> ttl" and m: "ttl mod Second = 0"
    by (simp_all add: usePrecise_def)
  have d: "Second dvd ttl"
    using m by (simp add: mod_eq_0_iff_dvd)
  have "formatSec ttl = ttl div Second"
    using ge by (simp add: formatSec_def)
  then show ?thesis
    using False assms(1) d by (simp add: set_expiry_def)
qed

lemma set_locks_other:
  "k \<notin> seatLockKey f ` set seatIDs \<Longrightarrow> set_locks store f seatIDs ord ttl k = store k"
  by (induction seatIDs arbitrary: store) auto

lemma set_locks_owner:
  "k \<in> seatLockKey f ` set seatIDs \<Longrightarrow>
   map_option fst (set_locks store f seatIDs ord ttl k) = Some ord"
proof (induction seatIDs arbitrary: store)
  case Nil
  then show ?case by simp
next
  case (Cons s rest)
  show ?case
  proof (cases "k \<in> seatLockKey f ` set rest")
    case True
    then show ?thesis by (simp add: Cons.IH)
  next
    case False
    then have "k = seatLockKey f s" using Cons.prems by auto
    then show ?thesis using False by (simp add: set_locks_other)
  qed
qed

lemma set_locks_exact:
  assumes "0 < ttl" and "ttl mod Millisecond = 0"
  shows "set_locks store f seatIDs ord ttl k =
           (if k \<in> seatLockKey f ` set seatIDs then Some (ord, ttl) else store k)"
  by (induction seatIDs arbitrary: store) (auto simp: set_expiry_exact [OF assms])

text \<open>
  C8. With both pipeline executions completing: for every state of the lock store,
  \<open>LockSeats\<close> fails and leaves the store as it is when some requested seat has an entry whose
  value differs from the requesting order; otherwise it succeeds, every requested key
  holds the order and the other keys are unchanged. For a TTL that is a positive whole
  number of milliseconds (the unit the client sends) every requested key holds the order
  with exactly the given TTL. In particular \<open>LockSeats\<close> succeeds when all requested seats
  are already held by the same order.
\<close>

theorem LockSeats_contract:
  "((\<exists>s \<in> set seatIDs. \<exists>v t. store (seatLockKey f s) = Some (v, t) \<and> v \<noteq> ord) \<longrightarrow>
      fst (LockSeats None None store f seatIDs ord ttl) \<noteq> None
      \<and> snd (LockSeats None None store f seatIDs ord ttl) = store)
   \<and> (\<not> (\<exists>s \<in> set seatIDs. \<exists>v t. store (seatLockKey f s) = Some (v, t) \<and> v \<noteq> ord) \<longrightarrow>
      fst (LockSeats None None store f seatIDs ord ttl) = None
      \<and> (\<forall>k. k \<notin> seatLockKey f ` set seatIDs \<longrightarrow>
             snd (LockSeats None None store f seatIDs ord ttl) k = store k)
      \<and> (\<forall>k. k \<in> seatLockKey f ` set seatIDs \<longrightarrow>
             map_option fst (snd (LockSeats None None store f seatIDs ord ttl) k) = Some ord))
   \<and> (\<not> (\<exists>s \<in> set seatIDs. \<exists>v t. store (seatLockKey f s) = Some (v, t) \<and> v \<noteq> ord)
        \<and> 0 < ttl \<and> ttl mod Millisecond = 0 \<longrightarrow>
      (\<forall>k. snd (LockSeats None None store f seatIDs ord ttl) k =
             (if k \<in> seatLockKey f ` set seatIDs then Some (ord, ttl) else store k)))
   \<and> ((\<forall>s \<in> set seatIDs. \<exists>t. store (seatLockKey f s) = Some (ord, t)) \<longrightarrow>
      fst (LockSeats None None store f seatIDs ord ttl) = None)"
proof -
  let ?foreign = "\<exists>s \<in> set seatIDs. \<exists>v t. store (seatLockKey f s) = Some (v, t) \<and> v \<noteq> ord"
  let ?L = "LockSeats None None store f seatIDs ord ttl"
  have none_iff: "check_results store f seatIDs ord = None \<longleftrightarrow> \<not> ?foreign"
    unfolding check_results_None_iff by blast
  have a: "fst ?L \<noteq> None \<and> snd ?L = store" if "?foreign"
    using none_iff that by (auto simp: LockSeats_def split: option.splits)
  have b: "?L = (None, set_locks store f seatIDs ord ttl)" if "\<not> ?foreign"
    using none_iff that by (simp add: LockSeats_def)
  have c: "\<not> ?foreign" if "\<forall>s \<in> set seatIDs. \<exists>t. store (seatLockKey f s) = Some (ord, t)"
    using that by fastforce
  have c1: "?foreign \<longrightarrow> fst ?L \<noteq> None \<and> snd ?L = store"
    using a by (rule impI)
  have c2: "\<not> ?foreign \<longrightarrow>
      fst ?L = None
      \<and> (\<forall>k. k \<notin> seatLockKey f ` set seatIDs \<longrightarrow> snd ?L k = store k)
      \<and> (\<forall>k. k \<in> seatLockKey f ` set seatIDs \<longrightarrow> map_option fst (snd ?L k) = Some ord)"
  proof (intro impI conjI allI)
    assume nf: "\<not> ?foreign"
    show "fst ?L = None"
      by (simp add: b [OF nf])
  next
    fix k
    assume nf: "\<not> ?foreign" and k: "k \<notin> seatLockKey f ` set seatIDs"
    show "snd ?L k = store k"
      by (simp only: b [OF nf] snd_conv set_locks_other [OF k])
  next
    fix k
    assume nf: "\<not> ?foreign" and k: "k \<in> seatLockKey f ` set seatIDs"
    show "map_option fst (snd ?L k) = Some ord"
      by (simp only: b [OF nf] snd_conv set_locks_owner [OF k])
  qed
  have c3: "\<not> ?foreign \<and> 0 < ttl \<and> ttl mod Millisecond = 0 \<longrightarrow>
      (\<forall>k. snd ?L k = (if k \<in> seatLockKey f ` set seatIDs then Some (ord, ttl) else store k))"
  proof (intro impI allI)
    fix k
    assume h: "\<not> ?foreign \<and> 0 < ttl \<and> ttl mod Millisecond = 0"
    then have nf: "\<not> ?foreign" and p: "0 < ttl" and m: "ttl mod Millisecond = 0"
      by blast+
    show "snd ?L k = (if k \<in> seatLockKey f ` set seatIDs then Some (ord, ttl) else store k)"
      by (simp only: b [OF nf] snd_conv set_locks_exact [OF p m])
  qed
  have c4: "(\<forall>s \<in> set seatIDs. \<exists>t. store (seatLockKey f s) = Some (ord, t)) \<longrightarrow> fst ?L = None"
  proof
    assume "\<forall>s \<in> set seatIDs. \<exists>t. store (seatLockKey f s) = Some (ord, t)"
    then have "\<not> ?foreign" by (rule c)
    then show "fst ?L = None" by (simp add: b)
  qed
  show ?thesis
    using c1 c2 c3 c4 by (intro conjI)
qed

theorem LockSeats_contract_witness:
  "fst (LockSeats None None [seatLockKey ''f1'' ''1A'' \<mapsto> (''o1'', 16 * Minute)]
         ''f1'' [''1A'', ''1B''] ''o2'' (16 * Minute)) \<noteq> None
   \<and> fst (LockSeats None None [seatLockKey ''f1'' ''1A'' \<mapsto> (''o1'', 16 * Minute)]
         ''f1'' [''1A'', ''1B''] ''o1'' (16 * Minute)) = None
   \<and> snd (LockSeats None None [seatLockKey ''f1'' ''1A'' \<mapsto> (''o1'', 16 * Minute)]
         ''f1'' [''1A'', ''1B''] ''o1'' (16 * Minute)) (seatLockKey ''f1'' ''1B'')
      = Some (''o1'', 16 * Minute)"
  using LockSeats_contract [of "[''1A'', ''1B'']"
      "[seatLockKey ''f1'' ''1A'' \<mapsto> (''o1'', 16 * Minute)]" "''f1''" "''o2''" "16 * Minute"]
    LockSeats_contract [of "[''1A'', ''1B'']"
      "[seatLockKey ''f1'' ''1A'' \<mapsto> (''o1'', 16 * Minute)]" "''f1''" "''o1''" "16 * Minute"]
  by (simp add: seatLockKey_def Minute_def Second_def Millisecond_def)

lemma compare_and_delete_apply:
  "compare_and_delete store key arg k =
     (if k = key \<and> (\<exists>t. store key = Some (arg, t)) then None else store k)"
  by (auto simp: compare_and_delete_def split: option.splits)

lemma ReleaseLocks_from_no_faults:
  "ReleaseLocks_from no_faults i store f seatIDs ord =
     (None, \<lambda>k. if k \<in> seatLockKey f ` set seatIDs \<and> (\<exists>t. store k = Some (ord, t))
                then None else store k)"
proof (induction seatIDs arbitrary: store i)
  case Nil
  then show ?case by simp
next
  case (Cons s rest)
  have "ReleaseLocks_from no_faults i store f (s # rest) ord =
        ReleaseLocks_from no_faults (Suc i)
          (compare_and_delete store (seatLockKey f s) ord) f rest ord"
    by (simp add: no_faults_def)
  also have "\<dots> = (None, \<lambda>k. if k \<in> seatLockKey f ` set rest
                          \<and> (\<exists>t. compare_and_delete store (seatLockKey f s) ord k = Some (ord, t))
                        then None else compare_and_delete store (seatLockKey f s) ord k)"
    by (rule Cons.IH)
  also have "\<dots> = (None, \<lambda>k. if k \<in> seatLockKey f ` set (s # rest)
                          \<and> (\<exists>t. store k = Some (ord, t))
                        then None else store k)"
    by (auto simp: compare_and_delete_apply fun_eq_iff)
  finally show ?case .
qed

lemma ReleaseLocks_from_keeps:
  "snd (ReleaseLocks_from se i store f seatIDs ord) k = Some v \<Longrightarrow> store k = Some v"
proof (induction seatIDs arbitrary: store i)
  case Nil
  then show ?case by simp
next
  case (Cons s rest)
  show ?case
  proof (cases "se i")
    case (Some e)
    with Cons.prems show ?thesis by simp
  next
    case None
    with Cons.prems have
      "snd (ReleaseLocks_from se (Suc i) (compare_and_delete store (seatLockKey f s) ord)
              f rest ord) k = Some v"
      by simp
    then have "compare_and_delete store (seatLockKey f s) ord k = Some v"
      by (rule Cons.IH)
    then show ?thesis
      by (simp add: compare_and_delete_apply split: if_splits)
  qed
qed

lemma compare_and_delete_absent:
  "(\<And>t. store key \<noteq> Some (arg, t)) \<Longrightarrow> compare_and_delete store key arg = store"
  by (auto simp: compare_and_delete_def split: option.splits)

lemma ReleaseLocks_from_deleted:
  "se i = None \<Longrightarrow>
   snd (ReleaseLocks_from se i store f (s # rest) ord) (seatLockKey f s) \<noteq> Some (ord, t)"
proof
  assume se: "se i = None"
    and h: "snd (ReleaseLocks_from se i store f (s # rest) ord) (seatLockKey f s) = Some (ord, t)"
  from h se have
    "snd (ReleaseLocks_from se (Suc i) (compare_and_delete store (seatLockKey f s) ord) f rest ord)
       (seatLockKey f s) = Some (ord, t)"
    by simp
  then have "compare_and_delete store (seatLockKey f s) ord (seatLockKey f s) = Some (ord, t)"
    by (rule ReleaseLocks_from_keeps)
  then show False
    by (simp add: compare_and_delete_apply split: if_splits)
qed

lemma ReleaseLocks_from_idem:
  "ReleaseLocks_from se i (snd (ReleaseLocks_from se i store f seatIDs ord)) f seatIDs ord
     = ReleaseLocks_from se i store f seatIDs ord"
proof (induction seatIDs arbitrary: store i)
  case Nil
  then show ?case by simp
next
  case (Cons s rest)
  show ?case
  proof (cases "se i")
    case (Some e)
    then show ?thesis by simp
  next
    case None
    let ?S = "snd (ReleaseLocks_from se i store f (s # rest) ord)"
    have S: "?S = snd (ReleaseLocks_from se (Suc i)
                        (compare_and_delete store (seatLockKey f s) ord) f rest ord)"
      using None by simp
    have "compare_and_delete ?S (seatLockKey f s) ord = ?S"
      using ReleaseLocks_from_deleted [of se i store f s rest ord, OF None]
      by (rule compare_and_delete_absent)
    then have "ReleaseLocks_from se i ?S f (s # rest) ord
               = ReleaseLocks_from se (Suc i) ?S f rest ord"
      using None by simp
    also have "\<dots> = ReleaseLocks_from se (Suc i)
                        (compare_and_delete store (seatLockKey f s) ord) f rest ord"
      unfolding S by (rule Cons.IH)
    also have "\<dots> = ReleaseLocks_from se i store f (s # rest) ord"
      using None by simp
    finally show ?thesis .
  qed
qed

lemma ReleaseSeats_locks:
  "redis_locks (snd (ReleaseSeats faults now w input)) =
     snd (ReleaseLocks (rf_script faults) (redis_locks w) (rs_FlightID input) (rs_Seats input)
            (rs_OrderID input))"
  by (auto simp: ReleaseSeats_def split: prod.splits option.splits)

text \<open>
  C9. \<open>ReleaseLocks\<close> (the lock store's release, run by the \<open>ReleaseSeats\<close> activity) succeeds
  and deletes exactly the requested keys whose value is the calling order: a missing entry
  is a success and an entry of another order is left as it is. Calling it a second time
  with the same arguments gives the same result and the same store as calling it once,
  also when script runs fail; the same holds of the lock store under the activity.
\<close>

theorem ReleaseLocks_compare_and_delete_idempotent:
  "ReleaseLocks no_faults store f seatIDs ord =
      (None, \<lambda>k. if k \<in> seatLockKey f ` set seatIDs \<and> (\<exists>t. store k = Some (ord, t))
                 then None else store k)
   \<and> ReleaseLocks se (snd (ReleaseLocks se store f seatIDs ord)) f seatIDs ord
       = ReleaseLocks se store f seatIDs ord
   \<and> redis_locks (snd (ReleaseSeats faults now2
                         (snd (ReleaseSeats faults now1 w
                                 \<lparr>rs_OrderID = ord, rs_FlightID = f, rs_Seats = seatIDs\<rparr>))
                         \<lparr>rs_OrderID = ord, rs_FlightID = f, rs_Seats = seatIDs\<rparr>))
       = redis_locks (snd (ReleaseSeats faults now1 w
                             \<lparr>rs_OrderID = ord, rs_FlightID = f, rs_Seats = seatIDs\<rparr>))"
  by (simp add: ReleaseLocks_def ReleaseLocks_from_no_faults ReleaseLocks_from_idem
      ReleaseSeats_locks)

theorem ReleaseLocks_compare_and_delete_idempotent_witness:
  "snd (ReleaseLocks no_faults
          [seatLockKey ''f1'' ''1A'' \<mapsto> (''o1'', 16 * Minute),
           seatLockKey ''f1'' ''1B'' \<mapsto> (''o2'', 16 * Minute)]
          ''f1'' [''1A'', ''1B'', ''1C''] ''o1'') (seatLockKey ''f1'' ''1A'') = None
   \<and> snd (ReleaseLocks no_faults
          [seatLockKey ''f1'' ''1A'' \<mapsto> (''o1'', 16 * Minute),
           seatLockKey ''f1'' ''1B'' \<mapsto> (''o2'', 16 * Minute)]
          ''f1'' [''1A'', ''1B'', ''1C''] ''o1'') (seatLockKey ''f1'' ''1B'')
       = Some (''o2'', 16 * Minute)
   \<and> fst (ReleaseLocks no_faults
          [seatLockKey ''f1'' ''1A'' \<mapsto> (''o1'', 16 * Minute),
           seatLockKey ''f1'' ''1B'' \<mapsto> (''o2'', 16 * Minute)]
          ''f1'' [''1A'', ''1B'', ''1C''] ''o1'') = None"
  using ReleaseLocks_compare_and_delete_idempotent [of
          "[seatLockKey ''f1'' ''1A'' \<mapsto> (''o1'', 16 * Minute),
           seatLockKey ''f1'' ''1B'' \<mapsto> (''o2'', 16 * Minute)]"
          "''f1''" "[''1A'', ''1B'', ''1C'']" "''o1''"]
  by (simp add: seatLockKey_def)

section \<open>Properties of the order store\<close>

lemma terminal_no_transition:
  "IsTerminal ord \<Longrightarrow> \<not> CanTransitionTo ord s"
  by (auto simp: IsTerminal_def CanTransitionTo_def validTransitions_def)

text \<open>
  C2, as stated, fails: the stored order is \<open>CONFIRMED\<close>, the domain rule allows no
  transition out of it, and yet \<open>UpdateStatus\<close> to \<open>CREATED\<close> returns no error and the row
  then reads \<open>CREATED\<close>.
\<close>

theorem UpdateStatus_terminal_counterexample:
  "IsTerminal example_order
   \<and> \<not> CanTransitionTo example_order OrderStatusCreated
   \<and> fst (UpdateStatus None (400 * Second) [''o1'' \<mapsto> example_order] ''o1''
            OrderStatusCreated) = None
   \<and> map_option Status
        (snd (UpdateStatus None (400 * Second) [''o1'' \<mapsto> example_order] ''o1''
                OrderStatusCreated) ''o1'') = Some OrderStatusCreated"
  by (simp add: UpdateStatus_def example_order_def IsTerminal_def CanTransitionTo_def
      validTransitions_def)

text \<open>
  C2, amended. When the statement executes, \<open>UpdateStatus\<close>, \<open>Confirm\<close>, \<open>Fail\<close> and \<open>Expire\<close>
  succeed on every existing order and write their status whatever the current one is,
  leaving the other orders as they are; \<open>UpdateStatus\<close> returns \<open>ErrOrderNotFound\<close> and
  changes nothing when no row has the id. The domain rule \<open>CanTransitionTo\<close> allows no
  transition out of \<open>CONFIRMED\<close>, \<open>FAILED\<close> or \<open>EXPIRED\<close>, but the store does not consult it.
\<close>

theorem order_store_writes_status_unconditionally:
  "(\<forall>ord. orders oid = Some ord \<longrightarrow>
      fst (UpdateStatus None now orders oid s) = None
      \<and> map_option Status (snd (UpdateStatus None now orders oid s) oid) = Some s
      \<and> map_option Status (snd (Confirm None now orders oid) oid) = Some OrderStatusConfirmed
      \<and> map_option Status (snd (Fail None now orders oid reason) oid) = Some OrderStatusFailed
      \<and> map_option Status (snd (Expire None now orders oid) oid) = Some OrderStatusExpired
      \<and> fst (Confirm None now orders oid) = None
      \<and> fst (Fail None now orders oid reason) = None
      \<and> fst (Expire None now orders oid) = None)
   \<and> (\<forall>k. k \<noteq> oid \<longrightarrow> snd (UpdateStatus None now orders oid s) k = orders k)
   \<and> (orders oid = None \<longrightarrow>
        UpdateStatus None now orders oid s = (Some ErrOrderNotFound, orders))
   \<and> (\<forall>ord. IsTerminal ord \<longrightarrow> \<not> CanTransitionTo ord s)"
  by (auto simp: UpdateStatus_def Confirm_def Fail_def Expire_def terminal_no_transition
      split: option.splits)

theorem order_store_writes_status_unconditionally_witness:
  "map_option Status
     (snd (UpdateStatus None (400 * Second) [''o1'' \<mapsto> example_order] ''o1''
             OrderStatusSeatsReserved) ''o1'') = Some OrderStatusSeatsReserved
   \<and> UpdateStatus None (400 * Second) [''o1'' \<mapsto> example_order] ''o2'' OrderStatusFailed
       = (Some ErrOrderNotFound, [''o1'' \<mapsto> example_order])
   \<and> \<not> CanTransitionTo example_order OrderStatusFailed"
  using order_store_writes_status_unconditionally
    [of "[''o1'' \<mapsto> example_order]" "''o1''" "400 * Second" OrderStatusSeatsReserved]
    order_store_writes_status_unconditionally
    [of "[''o1'' \<mapsto> example_order]" "''o2''" "400 * Second" OrderStatusFailed]
  by (simp add: example_order_def IsTerminal_def)

section \<open>Properties of seat booking\<close>

text \<open>
  C3, as stated, fails. A seat row reserved for order \<open>o2\<close> is booked for order \<open>o1\<close> by
  \<open>BookSeats\<close>; and when the counter cannot be decremented \<open>ConfirmOrder\<close> returns an error
  while the seat row stays booked and the counter stays as it was.
\<close>

theorem BookSeats_counterexample:
  "BookSeats None 5 [example_seat] ''f1'' [''1A''] ''o1'' =
     (None, [example_seat\<lparr>seat_Status := SeatStatusBooked, seat_OrderID := Some ''o1'',
                          seat_UpdatedAt := 5\<rparr>])
   \<and> seat_Status example_seat = SeatStatusReserved
   \<and> seat_OrderID example_seat = Some ''o2''
   \<and> fst (ConfirmOrder no_confirm_faults 5 example_world
            \<lparr>co_OrderID = ''o1'', co_FlightID = ''f1'', co_Seats = [''1A'']\<rparr>)
       = Some (PlainError ''update available seats: insufficient seats available'')
   \<and> map seat_Status
        (db_seats (snd (ConfirmOrder no_confirm_faults 5 example_world
            \<lparr>co_OrderID = ''o1'', co_FlightID = ''f1'', co_Seats = [''1A'']\<rparr>)))
       = [SeatStatusBooked]
   \<and> map_option flight_AvailableSeats
        (db_flights (snd (ConfirmOrder no_confirm_faults 5 example_world
            \<lparr>co_OrderID = ''o1'', co_FlightID = ''f1'', co_Seats = [''1A'']\<rparr>)) ''f1'')
       = Some 0"
  by (simp add: BookSeats_def book_matches_def example_seat_def ConfirmOrder_def Confirm_def
      UpdateAvailableSeats_def example_world_def example_order_def example_flight_def
      no_confirm_faults_def wrap_def ErrInsufficientSeats_def Let_def)

lemma BookSeats_rows:
  "snd (BookSeats None now tbl f seatIDs ord) =
     map (\<lambda>r. if seat_FlightID r = f \<and> seat_ID r \<in> set seatIDs
              then r\<lparr>seat_Status := SeatStatusBooked, seat_OrderID := Some ord,
                     seat_UpdatedAt := now\<rparr>
              else r) tbl"
  by (simp add: BookSeats_def book_matches_def Let_def)

lemma book_matches_fun:
  "book_matches f seatIDs = (\<lambda>r. seat_FlightID r = f \<and> seat_ID r \<in> set seatIDs)"
  by (simp add: fun_eq_iff book_matches_def)

lemma BookSeats_error:
  "fst (BookSeats None now tbl f seatIDs ord) = None \<longleftrightarrow>
     length (filter (\<lambda>r. seat_FlightID r = f \<and> seat_ID r \<in> set seatIDs) tbl) = length seatIDs"
  by (simp add: BookSeats_def book_matches_fun Let_def)

lemma ConfirmOrder_steps:
  assumes "db_orders w oid = Some ord0"
    and "fst (BookSeats None now (db_seats w) f seatIDs oid) = None"
  shows "ConfirmOrder no_confirm_faults now w
           \<lparr>co_OrderID = oid, co_FlightID = f, co_Seats = seatIDs\<rparr> =
         (case UpdateAvailableSeats None now (db_flights w) f (- int (length seatIDs)) of
            (Some err, fs) \<Rightarrow>
              (Some (wrap ''update available seats: '' err),
               w\<lparr>db_orders := snd (Confirm None now (db_orders w) oid),
                 db_seats := snd (BookSeats None now (db_seats w) f seatIDs oid),
                 db_flights := fs\<rparr>)
          | (None, fs) \<Rightarrow>
              (None,
               w\<lparr>db_orders := snd (Confirm None now (db_orders w) oid),
                 db_seats := snd (BookSeats None now (db_seats w) f seatIDs oid),
                 db_flights := fs,
                 redis_locks := snd (ReleaseLocks no_faults (redis_locks w) f seatIDs oid)\<rparr>))"
proof -
  obtain ss where b: "BookSeats None now (db_seats w) f seatIDs oid = (None, ss)"
    using assms(2) by (cases "BookSeats None now (db_seats w) f seatIDs oid") auto
  have c: "Confirm None now (db_orders w) oid =
             (None, (db_orders w)(oid \<mapsto> ord0\<lparr>Status := OrderStatusConfirmed,
                ConfirmedAt := Some now, UpdatedAt := now\<rparr>))"
    using assms(1) by (simp add: Confirm_def)
  show ?thesis
    by (simp add: ConfirmOrder_def no_confirm_faults_def b c Let_def
        split: prod.splits option.splits)
qed

text \<open>
  C3, amended. When its statement executes, \<open>BookSeats\<close> sets every row of the flight whose
  seat id is in the list to \<open>booked\<close> for the given order, whatever its status and owner
  were, and leaves the other rows as they are; it returns an error exactly when the
  number of rows changed differs from the length of the list. \<open>ConfirmOrder\<close> runs the
  confirmation, the seat booking and the counter decrement as separate statements: with
  the order present and the booking successful, the seat rows are booked and the order
  is \<open>CONFIRMED\<close> in either case; the counter is decremented by the seat count when it is
  large enough, and otherwise the activity returns an error with the counter unchanged.
\<close>

theorem BookSeats_and_ConfirmOrder_statements:
  "length (snd (BookSeats None now tbl f seatIDs oid)) = length tbl
   \<and> (\<forall>i < length tbl.
         snd (BookSeats None now tbl f seatIDs oid) ! i =
           (if seat_FlightID (tbl ! i) = f \<and> seat_ID (tbl ! i) \<in> set seatIDs
            then (tbl ! i)\<lparr>seat_Status := SeatStatusBooked, seat_OrderID := Some oid,
                           seat_UpdatedAt := now\<rparr>
            else tbl ! i))
   \<and> (fst (BookSeats None now tbl f seatIDs oid) = None \<longleftrightarrow>
        length (filter (\<lambda>r. seat_FlightID r = f \<and> seat_ID r \<in> set seatIDs) tbl)
          = length seatIDs)
   \<and> (db_orders w oid \<noteq> None
        \<and> fst (BookSeats None now (db_seats w) f seatIDs oid) = None \<longrightarrow>
        db_seats (snd (ConfirmOrder no_confirm_faults now w
                         \<lparr>co_OrderID = oid, co_FlightID = f, co_Seats = seatIDs\<rparr>))
          = snd (BookSeats None now (db_seats w) f seatIDs oid)
        \<and> map_option Status
            (db_orders (snd (ConfirmOrder no_confirm_faults now w
                         \<lparr>co_OrderID = oid, co_FlightID = f, co_Seats = seatIDs\<rparr>)) oid)
          = Some OrderStatusConfirmed
        \<and> (\<forall>fl. db_flights w f = Some fl
                 \<and> int (length seatIDs) \<le> flight_AvailableSeats fl \<longrightarrow>
              fst (ConfirmOrder no_confirm_faults now w
                     \<lparr>co_OrderID = oid, co_FlightID = f, co_Seats = seatIDs\<rparr>) = None
              \<and> map_option flight_AvailableSeats
                  (db_flights (snd (ConfirmOrder no_confirm_faults now w
                         \<lparr>co_OrderID = oid, co_FlightID = f, co_Seats = seatIDs\<rparr>)) f)
                = Some (flight_AvailableSeats fl - int (length seatIDs)))
        \<and> (\<forall>fl. db_flights w f = Some fl
                 \<and> flight_AvailableSeats fl < int (length seatIDs) \<longrightarrow>
              fst (ConfirmOrder no_confirm_faults now w
                     \<lparr>co_OrderID = oid, co_FlightID = f, co_Seats = seatIDs\<rparr>)
                = Some (wrap ''update available seats: '' ErrInsufficientSeats)
              \<and> db_flights (snd (ConfirmOrder no_confirm_faults now w
                         \<lparr>co_OrderID = oid, co_FlightID = f, co_Seats = seatIDs\<rparr>))
                = db_flights w))"
proof -
  have rows: "length (snd (BookSeats None now tbl f seatIDs oid)) = length tbl
     \<and> (\<forall>i < length tbl.
         snd (BookSeats None now tbl f seatIDs oid) ! i =
           (if seat_FlightID (tbl ! i) = f \<and> seat_ID (tbl ! i) \<in> set seatIDs
            then (tbl ! i)\<lparr>seat_Status := SeatStatusBooked, seat_OrderID := Some oid,
                           seat_UpdatedAt := now\<rparr>
            else tbl ! i))"
    by (simp add: BookSeats_rows)
  have confirm: ?thesis if o: "db_orders w oid = Some ord0"
      and b: "fst (BookSeats None now (db_seats w) f seatIDs oid) = None" for ord0
  proof -
    note st = ConfirmOrder_steps [OF o b]
    have conf: "map_option Status (snd (Confirm None now (db_orders w) oid) oid)
                  = Some OrderStatusConfirmed"
      using o by (simp add: Confirm_def)
    have 1: "db_seats (snd (ConfirmOrder no_confirm_faults now w
                         \<lparr>co_OrderID = oid, co_FlightID = f, co_Seats = seatIDs\<rparr>))
          = snd (BookSeats None now (db_seats w) f seatIDs oid)"
      unfolding st by (simp split: prod.splits option.splits)
    have 2: "map_option Status
            (db_orders (snd (ConfirmOrder no_confirm_faults now w
                         \<lparr>co_OrderID = oid, co_FlightID = f, co_Seats = seatIDs\<rparr>)) oid)
          = Some OrderStatusConfirmed"
      unfolding st using conf by (simp split: prod.splits option.splits)
    have 3: "fst (ConfirmOrder no_confirm_faults now w
                     \<lparr>co_OrderID = oid, co_FlightID = f, co_Seats = seatIDs\<rparr>) = None
              \<and> map_option flight_AvailableSeats
                  (db_flights (snd (ConfirmOrder no_confirm_faults now w
                         \<lparr>co_OrderID = oid, co_FlightID = f, co_Seats = seatIDs\<rparr>)) f)
                = Some (flight_AvailableSeats fl - int (length seatIDs))"
      if "db_flights w f = Some fl" "int (length seatIDs) \<le> flight_AvailableSeats fl" for fl
      unfolding st using that by (simp add: UpdateAvailableSeats_def)
    have 4: "fst (ConfirmOrder no_confirm_faults now w
                     \<lparr>co_OrderID = oid, co_FlightID = f, co_Seats = seatIDs\<rparr>)
                = Some (wrap ''update available seats: '' ErrInsufficientSeats)
              \<and> db_flights (snd (ConfirmOrder no_confirm_faults now w
                         \<lparr>co_OrderID = oid, co_FlightID = f, co_Seats = seatIDs\<rparr>))
                = db_flights w"
      if "db_flights w f = Some fl" "flight_AvailableSeats fl < int (length seatIDs)" for fl
      unfolding st using that by (simp add: UpdateAvailableSeats_def)
    show ?thesis
      using rows BookSeats_error [of now tbl f seatIDs oid] 1 2 3 4 by blast
  qed
  show ?thesis
  proof (cases "db_orders w oid \<noteq> None
        \<and> fst (BookSeats None now (db_seats w) f seatIDs oid) = None")
    case True
    then show ?thesis using confirm by blast
  next
    case False
    then show ?thesis
      using rows BookSeats_error [of now tbl f seatIDs oid] by blast
  qed
qed

theorem BookSeats_and_ConfirmOrder_statements_witness:
  "snd (BookSeats None 5 [example_seat] ''f1'' [''1A''] ''o1'') ! 0 =
     example_seat\<lparr>seat_Status := SeatStatusBooked, seat_OrderID := Some ''o1'',
                   seat_UpdatedAt := 5\<rparr>
   \<and> fst (BookSeats None 5 [example_seat] ''f1'' [''1A''] ''o1'') = None
   \<and> fst (ConfirmOrder no_confirm_faults 5 example_world
            \<lparr>co_OrderID = ''o1'', co_FlightID = ''f1'', co_Seats = [''1A'']\<rparr>)
       = Some (wrap ''update available seats: '' ErrInsufficientSeats)"
  using BookSeats_and_ConfirmOrder_statements
    [of 5 "[example_seat]" "''f1''" "[''1A'']" "''o1''" example_world]
  by (simp add: example_seat_def example_world_def example_flight_def example_order_def
      BookSeats_error)

section \<open>Properties of the status query\<close>

text \<open>
  C7, as stated, fails: the workflow query fails, the row exists with a deadline 600
  seconds ahead, and the timer remaining that is returned is 600, not 0.
\<close>

theorem GetOrderStatus_fallback_counterexample:
  "GetOrderStatus (\<lambda>d. d div Second)
     (Inl (PlainError ''workflow execution already completed'')) None
     (300 * Second) [''o1'' \<mapsto> example_order] ''o1'' =
   Inr \<lparr>os_OrderID = ''o1'', os_Status = OrderStatusConfirmed, os_Seats = [''1A''],
        os_TimerRemaining = 600, os_PaymentAttempts = 0, os_LastError = []\<rparr>"
  by (simp add: GetOrderStatus_def FindByID_def example_order_def Sub_def Seconds_int_def
      Second_def stringValue_def)

text \<open>
  C7, amended. When the workflow query fails and the row exists (and is read), the status
  query returns the row's id, status, seats and failure reason with zero payment
  attempts; the timer remaining is 0 when the row has no deadline or the deadline is not
  ahead of the wall clock, and, for a deadline less than \<open>2^24\<close> seconds ahead, the whole
  seconds left until the deadline.
\<close>

theorem GetOrderStatus_fallback:
  "orders oid = Some ord \<longrightarrow>
     (\<exists>r. GetOrderStatus floatSeconds (Inl qerr) None wallNow orders oid = Inr r
        \<and> os_OrderID r = ID ord \<and> os_Status r = Status ord \<and> os_Seats r = Seats ord
        \<and> os_LastError r = stringValue (FailureReason ord)
        \<and> os_PaymentAttempts r = 0
        \<and> (ExpiresAt ord = None \<longrightarrow> os_TimerRemaining r = 0)
        \<and> (\<forall>e. ExpiresAt ord = Some e \<and> e \<le> wallNow \<longrightarrow> os_TimerRemaining r = 0)
        \<and> (\<forall>e. ExpiresAt ord = Some e \<and> wallNow < e \<and> e - wallNow < 2 ^ 24 * Second \<longrightarrow>
              os_TimerRemaining r = (e - wallNow) div Second))"
  by (auto simp: GetOrderStatus_def FindByID_def Sub_def Seconds_int_def Second_def Let_def
      split: option.splits)

theorem GetOrderStatus_fallback_witness:
  "(\<exists>r. GetOrderStatus (\<lambda>d. d div Second)
            (Inl (PlainError ''workflow execution already completed'')) None
            (1000 * Second) [''o1'' \<mapsto> example_order] ''o1'' = Inr r
        \<and> os_Status r = OrderStatusConfirmed \<and> os_PaymentAttempts r = 0
        \<and> os_TimerRemaining r = 0)
   \<and> (\<exists>r. GetOrderStatus (\<lambda>d. d div Second)
            (Inl (PlainError ''workflow execution already completed'')) None
            (300 * Second) [''o1'' \<mapsto> example_order] ''o1'' = Inr r
        \<and> os_TimerRemaining r = 600)"
  using GetOrderStatus_fallback
    [of "[''o1'' \<mapsto> example_order]" "''o1''" example_order "\<lambda>d. d div Second"
        "PlainError ''workflow execution already completed''" "1000 * Second"]
    GetOrderStatus_fallback
    [of "[''o1'' \<mapsto> example_order]" "''o1''" example_order "\<lambda>d. d div Second"
        "PlainError ''workflow execution already completed''" "300 * Second"]
  by (auto simp: example_order_def Second_def)

section \<open>Properties of the booking workflow\<close>

lemmas workflow_defs =
  BookingWorkflow_def workflow_body_def after_hold_def payment_phase_def confirm_phase_def
  payment_attempt_def compensation_def toResult_def maxPaymentAttempts_def Sub_def
  payment_loop.simps dec.simps expire_def onSeatUpdate_def

text \<open>
  C1 on the history of the spec's scenario: the first two payment validations fail with a
  retryable error and the third succeeds. The loop sleeps 1s and 2s and makes three
  attempts, but \<open>lastPaymentErr\<close> still holds the second failure after the successful
  third attempt, so the workflow sets \<open>FAILED\<close>, runs \<open>FailOrder\<close>, returns the payment
  error and releases the seats; \<open>ConfirmOrder\<close> is never scheduled.
\<close>

theorem payment_succeeding_on_third_attempt_ends_failed:
  "BookingWorkflow retry_env example_input =
     Returned
       (Some \<lparr>res_OrderID = ''o4'', res_Status = OrderStatusFailed,
              res_Seats = [''1A'', ''1B''],
              res_Error = ''payment failed (attempt 2 of 3): payment validation failed: temporary gateway error''\<rparr>)
       (Some (ActivityFailed gateway_error))
       \<lparr>orderID = ''o4'', flightID = ''f1'', seats = [''1A'', ''1B''],
        status = OrderStatusFailed, expiresAt = 15 * Minute, paymentAttempts = 3,
        lastError = ''payment failed (attempt 2 of 3): payment validation failed: temporary gateway error''\<rparr>
       [ExecuteActivity orderCtx
          (CreateOrder_activity ''o4'' ''f1'' ''booking-o4'' [''1A'', ''1B''] (15 * Minute)),
        ExecuteActivity seatCtx (ReserveSeats_activity ''o4'' ''f1'' [''1A'', ''1B'']),
        NewTimer (15 * Minute - Second),
        CancelTimer,
        ExecuteActivity orderCtx (UpdateOrderStatus_activity ''o4'' OrderStatusPaymentProcessing),
        ExecuteActivity paymentCtx
          (ValidatePayment_activity \<lparr>vp_OrderID = ''o4'', vp_PaymentCode = ''12345''\<rparr>),
        Sleep Second,
        ExecuteActivity paymentCtx
          (ValidatePayment_activity \<lparr>vp_OrderID = ''o4'', vp_PaymentCode = ''12345''\<rparr>),
        Sleep (2 * Second),
        ExecuteActivity paymentCtx
          (ValidatePayment_activity \<lparr>vp_OrderID = ''o4'', vp_PaymentCode = ''12345''\<rparr>),
        ExecuteActivity orderCtx
          (FailOrder_activity ''o4''
             ''payment failed (attempt 2 of 3): payment validation failed: temporary gateway error''),
        ExecuteActivity compensationCtx
          (ReleaseSeats_activity
             \<lparr>rs_OrderID = ''o4'', rs_FlightID = ''f1'', rs_Seats = [''1A'', ''1B'']\<rparr>)]"
  by (simp add: workflow_defs retry_env_def example_input_def gateway_error_def
      Minute_def Second_def)

text \<open>
  C10 on a payment signal whose code has one character: the slice expression
  \<open>PaymentCode[:2]\<close> of the handler is out of range, the workflow function panics in the hold
  phase, and the deferred block (error \<open>nil\<close>, status \<open>SEATS_RESERVED\<close>) releases nothing.
\<close>

theorem one_character_payment_code_panics:
  "BookingWorkflow (retry_env\<lparr>events := [(Second, ProceedToPayment ''7'')]\<rparr>) example_input =
     Panicked
       \<lparr>orderID = ''o4'', flightID = ''f1'', seats = [''1A'', ''1B''],
        status = OrderStatusSeatsReserved, expiresAt = 15 * Minute, paymentAttempts = 0,
        lastError = []\<rparr>
       [ExecuteActivity orderCtx
          (CreateOrder_activity ''o4'' ''f1'' ''booking-o4'' [''1A'', ''1B''] (15 * Minute)),
        ExecuteActivity seatCtx (ReserveSeats_activity ''o4'' ''f1'' [''1A'', ''1B'']),
        NewTimer (15 * Minute - Second)]"
  by (simp add: workflow_defs retry_env_def example_input_def Minute_def Second_def)












lemma cancelled_wait_loop_spins:
  "BookingWorkflow (cancel_env\<lparr>events := [(Second, WorkflowCanceled)]\<rparr>) example_input =
     Spinning
       \<lparr>orderID = ''o4'', flightID = ''f1'', seats = [''1A'', ''1B''],
        status = OrderStatusSeatsReserved, expiresAt = 15 * Minute, paymentAttempts = 0,
        lastError = []\<rparr>
       [ExecuteActivity orderCtx
          (CreateOrder_activity ''o4'' ''f1'' ''booking-o4'' [''1A'', ''1B''] (15 * Minute)),
        ExecuteActivity seatCtx (ReserveSeats_activity ''o4'' ''f1'' [''1A'', ''1B'']),
        NewTimer (15 * Minute - Second)]"
  by (simp add: workflow_defs cancel_env_def example_input_def Minute_def Second_def)



lemma Sub_le_zero: "Sub e now \<le> 0 \<longleftrightarrow> e \<le> now"
  by (auto simp: Sub_def)

lemma onSeatUpdate_expiresAt:
  "expiresAt (fst (onSeatUpdate st newSeats upd t)) =
     (case upd of None \<Rightarrow> t + 15 * Minute | Some e \<Rightarrow> expiresAt st)"
  by (simp add: onSeatUpdate_def Let_def split: option.splits)

lemma hold_loop_Cons_SeatUpdate:
  "hold_loop st ((now, SeatUpdate newSeats upd t) # rest) tr =
     (if expiresAt st \<le> now
      then HoldExpired (expire st)
             (tr @ [ExecuteActivity orderCtx (ExpireOrder_activity (orderID st))])
      else hold_loop (fst (onSeatUpdate st newSeats upd t)) rest
             (tr @ [NewTimer (Sub (expiresAt st) now)] @ snd (onSeatUpdate st newSeats upd t)))"
  by (simp add: Let_def Sub_le_zero split: prod.splits)

lemma hold_loop_Cons_other:
  "\<forall>newSeats upd t. ev \<noteq> SeatUpdate newSeats upd t \<Longrightarrow>
   hold_state (hold_loop st ((now, ev) # rest) tr) = st
   \<or> hold_state (hold_loop st ((now, ev) # rest) tr) = expire st"
  by (cases ev) (auto simp: Let_def)

lemma hold_loop_Cons_other_not_waiting:
  "\<forall>newSeats upd t. ev \<noteq> SeatUpdate newSeats upd t \<Longrightarrow>
   hold_loop st ((now, ev) # rest) tr \<noteq> HoldWaiting s' t'"
  by (cases ev) (auto simp: Let_def)

lemma hold_loop_Cons_other_append:
  "\<forall>newSeats upd t. ev \<noteq> SeatUpdate newSeats upd t \<Longrightarrow>
   hold_loop st ((now, ev) # rest) tr = hold_loop st ((now, ev) # rest') tr"
  by (cases ev) (auto simp: Let_def)

lemma clock_readings_Cons_other:
  "\<forall>newSeats upd t. ev \<noteq> SeatUpdate newSeats upd t \<Longrightarrow>
   clock_readings ((now, ev) # rest) = now # clock_readings rest"
  by (cases ev) auto

lemma clock_readings_append:
  "clock_readings (xs @ ys) = clock_readings xs @ clock_readings ys"
proof (induction xs)
  case Nil
  then show ?case by simp
next
  case (Cons a xs)
  obtain now ev where a: "a = (now, ev)" by (cases a)
  show ?case using Cons.IH by (cases ev) (simp_all add: a)
qed

lemma expire_expiresAt: "expiresAt (expire st) = expiresAt st"
  by (simp add: expire_def)

lemma hold_loop_bounds:
  "sorted (t0 # clock_readings evs) \<Longrightarrow> expiresAt st \<le> t0 + 15 * Minute \<Longrightarrow>
   expiresAt st \<le> expiresAt (hold_state (hold_loop st evs tr))
   \<and> expiresAt (hold_state (hold_loop st evs tr)) \<le> last (t0 # clock_readings evs) + 15 * Minute"
proof (induction evs arbitrary: st tr t0)
  case Nil
  then show ?case by simp
next
  case (Cons a evs)
  obtain now ev where a: "a = (now, ev)" by (cases a)
  show ?case
  proof (cases "\<exists>newSeats upd t. ev = SeatUpdate newSeats upd t")
    case False
    then have ne: "\<forall>newSeats upd t. ev \<noteq> SeatUpdate newSeats upd t" by blast
    have cr: "clock_readings (a # evs) = now # clock_readings evs"
      using clock_readings_Cons_other [OF ne] a by simp
    have srt: "sorted (t0 # now # clock_readings evs)"
      using Cons.prems(1) cr by simp
    have "t0 \<le> last (t0 # now # clock_readings evs)"
      using srt by (metis last_in_set list.discI list.set_intros(1) sorted_simps(2) order_refl set_ConsD)
    then have ub: "expiresAt st \<le> last (t0 # clock_readings (a # evs)) + 15 * Minute"
      using Cons.prems(2) cr by simp
    have "expiresAt (hold_state (hold_loop st (a # evs) tr)) = expiresAt st"
      using hold_loop_Cons_other [OF ne, of st now evs tr] a expire_expiresAt by auto
    then show ?thesis using ub by simp
  next
    case True
    then obtain newSeats upd t where ev: "ev = SeatUpdate newSeats upd t" by blast
    have cr: "clock_readings (a # evs) = now # t # clock_readings evs"
      by (simp add: a ev)
    have srt: "sorted (t0 # now # t # clock_readings evs)"
      using Cons.prems(1) cr by simp
    have t0t: "t0 \<le> t" using srt by simp
    have srt': "sorted (t # clock_readings evs)" using srt by simp
    have tl: "t \<le> last (t # clock_readings evs)"
      using srt' by (metis last_in_set list.discI list.set_intros(1) sorted_simps(2) order_refl set_ConsD)
    have lasteq: "last (t0 # clock_readings (a # evs)) = last (t # clock_readings evs)"
      by (simp add: cr)
    show ?thesis
    proof (cases "expiresAt st \<le> now")
      case True
      have "expiresAt (hold_state (hold_loop st (a # evs) tr)) = expiresAt st"
        using True by (simp add: a ev hold_loop_Cons_SeatUpdate expire_expiresAt del: hold_loop.simps)
      then show ?thesis using Cons.prems(2) t0t tl lasteq by simp
    next
      case False
      let ?st' = "fst (onSeatUpdate st newSeats upd t)"
      let ?tr' = "tr @ [NewTimer (Sub (expiresAt st) now)] @ snd (onSeatUpdate st newSeats upd t)"
      have h: "hold_loop st (a # evs) tr = hold_loop ?st' evs ?tr'"
        using False by (simp add: a ev hold_loop_Cons_SeatUpdate del: hold_loop.simps)
      have e': "expiresAt ?st' \<le> t + 15 * Minute" and ge: "expiresAt st \<le> expiresAt ?st'"
        using Cons.prems(2) t0t by (auto simp: onSeatUpdate_expiresAt split: option.splits)
      from Cons.IH [OF srt' e', of ?tr'] ge show ?thesis
        unfolding h lasteq by simp
    qed
  qed
qed

lemma hold_loop_append_waiting:
  "hold_loop st xs tr = HoldWaiting st' tr' \<Longrightarrow>
   hold_loop st (xs @ ys) tr = hold_loop st' ys tr'"
proof (induction xs arbitrary: st tr)
  case Nil
  then show ?case by simp
next
  case (Cons a xs)
  obtain now ev where a: "a = (now, ev)" by (cases a)
  show ?case
  proof (cases "\<exists>newSeats upd t. ev = SeatUpdate newSeats upd t")
    case False
    then have "\<forall>newSeats upd t. ev \<noteq> SeatUpdate newSeats upd t" by blast
    from hold_loop_Cons_other_not_waiting [OF this, of st now xs tr st' tr'] Cons.prems
    show ?thesis by (simp add: a)
  next
    case True
    then obtain newSeats upd t where ev: "ev = SeatUpdate newSeats upd t" by blast
    show ?thesis
      using Cons.prems Cons.IH
      by (simp add: a ev hold_loop_Cons_SeatUpdate del: hold_loop.simps split: if_splits)
  qed
qed

lemma hold_loop_append_done:
  "\<forall>s t. hold_loop st xs tr \<noteq> HoldWaiting s t \<Longrightarrow>
   hold_loop st (xs @ ys) tr = hold_loop st xs tr"
proof (induction xs arbitrary: st tr)
  case Nil
  then show ?case by simp
next
  case (Cons a xs)
  obtain now ev where a: "a = (now, ev)" by (cases a)
  show ?case
  proof (cases "\<exists>newSeats upd t. ev = SeatUpdate newSeats upd t")
    case False
    then have "\<forall>newSeats upd t. ev \<noteq> SeatUpdate newSeats upd t" by blast
    from hold_loop_Cons_other_append [OF this, of st now "xs @ ys" tr xs]
    show ?thesis by (simp add: a)
  next
    case True
    then obtain newSeats upd t where ev: "ev = SeatUpdate newSeats upd t" by blast
    show ?thesis
      using Cons.prems Cons.IH
      by (simp add: a ev hold_loop_Cons_SeatUpdate del: hold_loop.simps split: if_splits)
  qed
qed

lemma hold_loop_expiry_origin:
  "expiresAt (hold_state (hold_loop st evs tr)) = expiresAt st
   \<or> (\<exists>now newSeats t. (now, SeatUpdate newSeats None t) \<in> set evs
         \<and> expiresAt (hold_state (hold_loop st evs tr)) = t + 15 * Minute)"
proof (induction evs arbitrary: st tr)
  case Nil
  then show ?case by simp
next
  case (Cons a evs)
  obtain now ev where a: "a = (now, ev)" by (cases a)
  show ?case
  proof (cases "\<exists>newSeats upd t. ev = SeatUpdate newSeats upd t")
    case False
    then have ne: "\<forall>newSeats upd t. ev \<noteq> SeatUpdate newSeats upd t" by blast
    have "expiresAt (hold_state (hold_loop st (a # evs) tr)) = expiresAt st"
      using hold_loop_Cons_other [OF ne, of st now evs tr] a expire_expiresAt by auto
    then show ?thesis by simp
  next
    case True
    then obtain newSeats upd t where ev: "ev = SeatUpdate newSeats upd t" by blast
    show ?thesis
    proof (cases "expiresAt st \<le> now")
      case True
      then show ?thesis
        by (simp add: a ev hold_loop_Cons_SeatUpdate expire_expiresAt del: hold_loop.simps)
    next
      case False
      let ?st' = "fst (onSeatUpdate st newSeats upd t)"
      let ?tr' = "tr @ [NewTimer (Sub (expiresAt st) now)] @ snd (onSeatUpdate st newSeats upd t)"
      have h: "hold_loop st (a # evs) tr = hold_loop ?st' evs ?tr'"
        using False by (simp add: a ev hold_loop_Cons_SeatUpdate del: hold_loop.simps)
      from Cons.IH [of ?st' ?tr'] show ?thesis
      proof
        assume eq: "expiresAt (hold_state (hold_loop ?st' evs ?tr')) = expiresAt ?st'"
        show ?thesis
        proof (cases upd)
          case None
          then have "(now, SeatUpdate newSeats None t) \<in> set (a # evs)"
            by (simp add: a ev)
          moreover have "expiresAt (hold_state (hold_loop st (a # evs) tr)) = t + 15 * Minute"
            unfolding h eq using None by (simp add: onSeatUpdate_expiresAt)
          ultimately show ?thesis by blast
        next
          case (Some e)
          then have "expiresAt (hold_state (hold_loop st (a # evs) tr)) = expiresAt st"
            unfolding h eq by (simp add: onSeatUpdate_expiresAt)
          then show ?thesis by simp
        qed
      next
        assume "\<exists>now newSeats t. (now, SeatUpdate newSeats None t) \<in> set evs
           \<and> expiresAt (hold_state (hold_loop ?st' evs ?tr')) = t + 15 * Minute"
        then show ?thesis unfolding h by auto
      qed
    qed
  qed
qed

lemma payment_attempt_expiresAt:
  shows "payment_attempt results code attempt x = Break y \<Longrightarrow>
           expiresAt (fst y) = expiresAt (fst x)"
    and "payment_attempt results code attempt x = Continue y \<Longrightarrow>
           expiresAt (fst y) = expiresAt (fst x)"
  by (auto simp: payment_attempt_def Let_def split: prod.splits option.splits if_splits)

lemma payment_loop_expiresAt:
  "expiresAt (fst (payment_loop results code attempt x)) = expiresAt (fst x)"
proof (induction results code attempt x rule: payment_loop.induct)
  case (1 results code attempt x)
  show ?case
  proof (cases "attempt \<le> maxPaymentAttempts")
    case False
    then show ?thesis by (simp add: payment_loop.simps)
  next
    case True
    show ?thesis
    proof (cases "payment_attempt results code attempt x")
      case (Break y)
      then show ?thesis
        using True payment_attempt_expiresAt(1) [of results code attempt x y]
        by (simp add: payment_loop.simps [of results code attempt x])
    next
      case (Continue y)
      then show ?thesis
        using True "1.IH" [OF True Continue]
          payment_attempt_expiresAt(2) [of results code attempt x y]
        by (simp add: payment_loop.simps [of results code attempt x])
    qed
  qed
qed

lemma payment_phase_expiresAt:
  "expiresAt (body_state (payment_phase env st code tr)) = expiresAt st"
proof -
  let ?x = "(st\<lparr>status := OrderStatusPaymentProcessing\<rparr>, None :: activity_error option,
             tr @ [ExecuteActivity orderCtx
                     (UpdateOrderStatus_activity (orderID st) OrderStatusPaymentProcessing)])"
  obtain st2 lpe tr2 where p: "payment_loop (validatePaymentErr env) code 1 ?x = (st2, lpe, tr2)"
    by (cases "payment_loop (validatePaymentErr env) code 1 ?x") auto
  have "expiresAt st2 = expiresAt st"
    using payment_loop_expiresAt [of "validatePaymentErr env" code 1 ?x] p by simp
  then show ?thesis
    using p by (simp add: payment_phase_def confirm_phase_def Let_def split: option.splits)
qed

lemma after_hold_expiresAt:
  "expiresAt (body_state (after_hold env r)) = expiresAt (hold_state r)"
  by (cases r) (simp_all add: after_hold_def Let_def payment_phase_expiresAt)

lemma run_expiresAt:
  "expiresAt (state_of (BookingWorkflow env input)) =
     (case setQueryHandlerErr env of
        Some e \<Rightarrow> 0
      | None \<Rightarrow>
          if createOrderErr env \<noteq> None \<or> reserveSeatsErr env \<noteq> None
          then startNow env + 15 * Minute
          else expiresAt
                 (hold_state
                    (hold_loop
                       \<lparr>orderID = in_OrderID input, flightID = in_FlightID input,
                        seats = in_Seats input, status = OrderStatusSeatsReserved,
                        expiresAt = startNow env + 15 * Minute, paymentAttempts = 0,
                        lastError = []\<rparr>
                       (events env)
                       [ExecuteActivity orderCtx
                          (CreateOrder_activity (in_OrderID input) (in_FlightID input)
                             (workflowID env) (in_Seats input) (startNow env + 15 * Minute)),
                        ExecuteActivity seatCtx
                          (ReserveSeats_activity (in_OrderID input) (in_FlightID input)
                             (in_Seats input))])))"
proof -
  have st: "state_of (case b of BodyWaiting st tr \<Rightarrow> Waiting st tr
                      | BodyPanic st tr \<Rightarrow> Panicked st (tr @ compensation st None)
                      | BodySpinning st tr \<Rightarrow> Spinning st tr
                      | BodyReturn st err tr \<Rightarrow>
                          Returned (Some (toResult st)) err st (tr @ compensation st err))
            = body_state b" for b
    by (cases b) simp_all
  show ?thesis
    by (simp add: BookingWorkflow_def Let_def st workflow_body_def after_hold_expiresAt
        del: hold_loop.simps split: option.splits)
qed

lemma sorted_last_append:
  "sorted (as @ bs) \<Longrightarrow> as \<noteq> [] \<Longrightarrow> sorted (last as # bs)"
  by (simp add: sorted_append)

lemma run_monotone:
  assumes "sorted (startNow env # clock_readings (xs @ ys))"
  shows "expiresAt (state_of (BookingWorkflow (env\<lparr>events := xs\<rparr>) input))
         \<le> expiresAt (state_of (BookingWorkflow (env\<lparr>events := xs @ ys\<rparr>) input))"
proof -
  let ?st2 = "\<lparr>orderID = in_OrderID input, flightID = in_FlightID input,
               seats = in_Seats input, status = OrderStatusSeatsReserved,
               expiresAt = startNow env + 15 * Minute, paymentAttempts = 0,
               lastError = []\<rparr>"
  let ?tr2 = "[ExecuteActivity orderCtx
                 (CreateOrder_activity (in_OrderID input) (in_FlightID input)
                    (workflowID env) (in_Seats input) (startNow env + 15 * Minute)),
               ExecuteActivity seatCtx
                 (ReserveSeats_activity (in_OrderID input) (in_FlightID input)
                    (in_Seats input))]"
  have srt: "sorted ((startNow env # clock_readings xs) @ clock_readings ys)"
    using assms by (simp add: clock_readings_append)
  have srt_xs: "sorted (startNow env # clock_readings xs)"
    using srt sorted_append by blast
  have srt_ys: "sorted (last (startNow env # clock_readings xs) # clock_readings ys)"
    using srt by (rule sorted_last_append) simp
  have main: "expiresAt (hold_state (hold_loop ?st2 xs ?tr2))
              \<le> expiresAt (hold_state (hold_loop ?st2 (xs @ ys) ?tr2))"
  proof (cases "\<exists>s t. hold_loop ?st2 xs ?tr2 = HoldWaiting s t")
    case True
    then obtain s t where w: "hold_loop ?st2 xs ?tr2 = HoldWaiting s t" by blast
    have "expiresAt s \<le> last (startNow env # clock_readings xs) + 15 * Minute"
      using hold_loop_bounds [OF srt_xs, of ?st2 ?tr2] w by simp
    then have "expiresAt s \<le> expiresAt (hold_state (hold_loop s ys t))"
      using hold_loop_bounds [OF srt_ys, of s t] by simp
    then show ?thesis
      using w hold_loop_append_waiting [OF w, of ys] by simp
  next
    case False
    then have "hold_loop ?st2 (xs @ ys) ?tr2 = hold_loop ?st2 xs ?tr2"
      using hold_loop_append_done [of ?st2 xs ?tr2 ys] by blast
    then show ?thesis by simp
  qed
  show ?thesis
    using main by (auto simp: run_expiresAt simp del: hold_loop.simps split: option.splits)
qed

lemma run_expiry_origin:
  assumes "setQueryHandlerErr env = None"
  shows "expiresAt (state_of (BookingWorkflow env input)) = startNow env + 15 * Minute
         \<or> (\<exists>now newSeats t. (now, SeatUpdate newSeats None t) \<in> set (events env)
               \<and> expiresAt (state_of (BookingWorkflow env input)) = t + 15 * Minute)"
proof -
  let ?st2 = "\<lparr>orderID = in_OrderID input, flightID = in_FlightID input,
               seats = in_Seats input, status = OrderStatusSeatsReserved,
               expiresAt = startNow env + 15 * Minute, paymentAttempts = 0,
               lastError = []\<rparr>"
  let ?tr2 = "[ExecuteActivity orderCtx
                 (CreateOrder_activity (in_OrderID input) (in_FlightID input)
                    (workflowID env) (in_Seats input) (startNow env + 15 * Minute)),
               ExecuteActivity seatCtx
                 (ReserveSeats_activity (in_OrderID input) (in_FlightID input)
                    (in_Seats input))]"
  show ?thesis
    using assms hold_loop_expiry_origin [of ?st2 "events env" ?tr2]
    by (simp add: run_expiresAt del: hold_loop.simps)
qed

lemma seat_update_applied:
  assumes "hold_loop st xs tr = HoldWaiting st1 tr1" and "now < expiresAt st1"
  shows "hold_loop st (xs @ [(now, SeatUpdate newSeats None t)]) tr =
           HoldWaiting (st1\<lparr>seats := newSeats, expiresAt := t + 15 * Minute\<rparr>)
             (tr1 @ [NewTimer (Sub (expiresAt st1) now),
                     ExecuteActivity seatCtx
                       (UpdateSeatSelection_activity (orderID st1) (flightID st1)
                          (seats st1) newSeats),
                     ExecuteActivity orderCtx
                       (UpdateOrderSeats_activity (orderID st1) newSeats (t + 15 * Minute)),
                     CancelTimer])"
  using assms(2)
  by (simp add: hold_loop_append_waiting [OF assms(1)] hold_loop_Cons_SeatUpdate
      onSeatUpdate_def Let_def del: hold_loop.simps(2))

lemma seat_update_failed:
  assumes "hold_loop st xs tr = HoldWaiting st1 tr1" and "now < expiresAt st1"
  shows "hold_loop st (xs @ [(now, SeatUpdate newSeats (Some e) t)]) tr =
           HoldWaiting (st1\<lparr>lastError := err_Error e\<rparr>)
             (tr1 @ [NewTimer (Sub (expiresAt st1) now),
                     ExecuteActivity seatCtx
                       (UpdateSeatSelection_activity (orderID st1) (flightID st1)
                          (seats st1) newSeats),
                     CancelTimer])"
  using assms(2)
  by (simp add: hold_loop_append_waiting [OF assms(1)] hold_loop_Cons_SeatUpdate
      onSeatUpdate_def Let_def del: hold_loop.simps(2))

text \<open>
  C6. Whenever the wait loop is waiting and the hold has not run out, an \<open>update-seats\<close>
  signal whose \<open>UpdateSeatSelection\<close> succeeds sets the seats to the payload and the deadline
  to the clock reading plus 15 minutes and calls \<open>UpdateOrderSeats\<close> with both; one whose
  \<open>UpdateSeatSelection\<close> fails records the error text in \<open>lastError\<close> and changes nothing else
  (and \<open>UpdateOrderSeats\<close> is not called). With clock readings that never go back, the
  deadline of a run never decreases as its history is extended; and the deadline is always
  the start time plus 15 minutes or the clock reading of a successfully applied seat
  update plus 15 minutes.
\<close>

theorem seat_update_resets_expiry:
  "(hold_loop st xs tr = HoldWaiting st1 tr1 \<and> now < expiresAt st1 \<longrightarrow>
      hold_loop st (xs @ [(now, SeatUpdate newSeats None t)]) tr =
        HoldWaiting (st1\<lparr>seats := newSeats, expiresAt := t + 15 * Minute\<rparr>)
          (tr1 @ [NewTimer (Sub (expiresAt st1) now),
                  ExecuteActivity seatCtx
                    (UpdateSeatSelection_activity (orderID st1) (flightID st1)
                       (seats st1) newSeats),
                  ExecuteActivity orderCtx
                    (UpdateOrderSeats_activity (orderID st1) newSeats (t + 15 * Minute)),
                  CancelTimer])
      \<and> hold_loop st (xs @ [(now, SeatUpdate newSeats (Some e) t)]) tr =
        HoldWaiting (st1\<lparr>lastError := err_Error e\<rparr>)
          (tr1 @ [NewTimer (Sub (expiresAt st1) now),
                  ExecuteActivity seatCtx
                    (UpdateSeatSelection_activity (orderID st1) (flightID st1)
                       (seats st1) newSeats),
                  CancelTimer]))
   \<and> (sorted (startNow env # clock_readings (ys @ zs)) \<longrightarrow>
        expiresAt (state_of (BookingWorkflow (env\<lparr>events := ys\<rparr>) input))
        \<le> expiresAt (state_of (BookingWorkflow (env\<lparr>events := ys @ zs\<rparr>) input)))
   \<and> (setQueryHandlerErr env = None \<longrightarrow>
        expiresAt (state_of (BookingWorkflow env input)) = startNow env + 15 * Minute
        \<or> (\<exists>now' newSeats' t'. (now', SeatUpdate newSeats' None t') \<in> set (events env)
              \<and> expiresAt (state_of (BookingWorkflow env input)) = t' + 15 * Minute))"
proof (intro conjI impI)
  assume h: "hold_loop st xs tr = HoldWaiting st1 tr1 \<and> now < expiresAt st1"
  then have h1: "hold_loop st xs tr = HoldWaiting st1 tr1" and h2: "now < expiresAt st1"
    by simp_all
  show "hold_loop st (xs @ [(now, SeatUpdate newSeats None t)]) tr =
        HoldWaiting (st1\<lparr>seats := newSeats, expiresAt := t + 15 * Minute\<rparr>)
          (tr1 @ [NewTimer (Sub (expiresAt st1) now),
                  ExecuteActivity seatCtx
                    (UpdateSeatSelection_activity (orderID st1) (flightID st1)
                       (seats st1) newSeats),
                  ExecuteActivity orderCtx
                    (UpdateOrderSeats_activity (orderID st1) newSeats (t + 15 * Minute)),
                  CancelTimer])"
    by (rule seat_update_applied [OF h1 h2])
  show "hold_loop st (xs @ [(now, SeatUpdate newSeats (Some e) t)]) tr =
        HoldWaiting (st1\<lparr>lastError := err_Error e\<rparr>)
          (tr1 @ [NewTimer (Sub (expiresAt st1) now),
                  ExecuteActivity seatCtx
                    (UpdateSeatSelection_activity (orderID st1) (flightID st1)
                       (seats st1) newSeats),
                  CancelTimer])"
    by (rule seat_update_failed [OF h1 h2])
next
  assume "sorted (startNow env # clock_readings (ys @ zs))"
  then show "expiresAt (state_of (BookingWorkflow (env\<lparr>events := ys\<rparr>) input))
        \<le> expiresAt (state_of (BookingWorkflow (env\<lparr>events := ys @ zs\<rparr>) input))"
    by (rule run_monotone)
next
  assume "setQueryHandlerErr env = None"
  then show "expiresAt (state_of (BookingWorkflow env input)) = startNow env + 15 * Minute
        \<or> (\<exists>now' newSeats' t'. (now', SeatUpdate newSeats' None t') \<in> set (events env)
              \<and> expiresAt (state_of (BookingWorkflow env input)) = t' + 15 * Minute)"
    by (rule run_expiry_origin)
qed

theorem seat_update_resets_expiry_witness:
  "hold_loop example_state [(Second, SeatUpdate [''3A'', ''3B''] None (2 * Second))] [] =
     HoldWaiting (example_state\<lparr>seats := [''3A'', ''3B''],
                                 expiresAt := 2 * Second + 15 * Minute\<rparr>)
       [NewTimer (15 * Minute - Second),
        ExecuteActivity seatCtx
          (UpdateSeatSelection_activity ''o4'' ''f1'' [''1A'', ''1B''] [''3A'', ''3B'']),
        ExecuteActivity orderCtx
          (UpdateOrderSeats_activity ''o4'' [''3A'', ''3B''] (2 * Second + 15 * Minute)),
        CancelTimer]
   \<and> hold_loop example_state
        [(Second, SeatUpdate [''3A'', ''3B''] (Some gateway_error) (2 * Second))] [] =
     HoldWaiting (example_state\<lparr>lastError :=
                                   ''payment validation failed: temporary gateway error''\<rparr>)
       [NewTimer (15 * Minute - Second),
        ExecuteActivity seatCtx
          (UpdateSeatSelection_activity ''o4'' ''f1'' [''1A'', ''1B''] [''3A'', ''3B'']),
        CancelTimer]
   \<and> expiresAt (state_of (BookingWorkflow
          (retry_env\<lparr>events := [(Second, SeatUpdate [''3A'', ''3B''] None (2 * Second))]\<rparr>)
          example_input))
      \<le> expiresAt (state_of (BookingWorkflow
          (retry_env\<lparr>events := [(Second, SeatUpdate [''3A'', ''3B''] None (2 * Second))]
                                  @ [(3 * Second, CancelBooking)]\<rparr>)
          example_input))"
proof -
  have h: "hold_loop example_state [] [] = HoldWaiting example_state []
           \<and> Second < expiresAt example_state"
    by (simp add: example_state_def Minute_def Second_def)
  have s: "sorted (startNow retry_env
                   # clock_readings ([(Second, SeatUpdate [''3A'', ''3B''] None (2 * Second))]
                                     @ [(3 * Second, CancelBooking)]))"
    by (simp add: retry_env_def Second_def)
  show ?thesis
    using h s
      seat_update_resets_expiry
        [where st = example_state and xs = "[]" and tr = "[]" and ?st1.0 = example_state
           and ?tr1.0 = "[]" and now = Second and newSeats = "[''3A'', ''3B'']"
           and t = "2 * Second" and e = gateway_error and env = retry_env
           and ys = "[(Second, SeatUpdate [''3A'', ''3B''] None (2 * Second))]"
           and zs = "[(3 * Second, CancelBooking)]" and input = example_input]
    by (simp add: example_state_def gateway_error_def Sub_def Minute_def Second_def)
qed

end
